theory Spec2Isabelle
  imports Complex_Main "HOL-Library.Code_Target_Numeral"
begin

section \<open>JavaScript values of the reservation server\<close>

text \<open>
  Every value the two programs handle comes out of \<^verbatim>\<open>JSON.parse\<close> (the request body
  through \<^verbatim>\<open>express.json()\<close>, the stored files through \<^verbatim>\<open>JSON.parse\<close>) or is
  \<^verbatim>\<open>undefined\<close> (a property that is absent). A JavaScript value is therefore a
  \<open>json option\<close>, \<open>None\<close> standing for \<^verbatim>\<open>undefined\<close>. A string is the list of
  the bytes of its UTF-8 encoding. An object is the list of its own properties in the
  order in which they are enumerated.

  A number is an IEEE 754 double: a finite one is given by its exact value, a rational
  (the positive zero is \<open>Finite 0\<close>); the negative zero, the two infinities and
  \<open>NaN\<close> stand apart. \<^verbatim>\<open>JSON.parse\<close> produces the negative zero from \<^verbatim>\<open>-0\<close> and an
  infinity from a literal beyond the range of the doubles, such as \<^verbatim>\<open>1e400\<close>; it
  never produces \<open>NaN\<close>, which arithmetic does.

  The limits of the engine (the depth of its stack, its memory) are not modelled.
\<close>

datatype number = Finite rat | NegZero | Infinity | NegInfinity | NaN

datatype json =
    JNull
  | JBool bool
  | JNum number
  | JStr string
  | JArr "json list"
  | JObj "(string \<times> json) list"

type_synonym jsval = "json option"

text \<open>The errors the runtime throws, and those of the disk and of the mail transport.\<close>

datatype exn =
    TypeError
  | SyntaxError
  | SystemError string
  | MailError string

text \<open>
  \<^verbatim>\<open>!x\<close> is true exactly for the falsy values: \<^verbatim>\<open>undefined\<close>, \<^verbatim>\<open>null\<close>,
  \<^verbatim>\<open>false\<close>, the two zeros, \<open>NaN\<close> and the empty string. Arrays and objects are
  truthy, and so are the infinities.
\<close>

fun truthy_number :: "number \<Rightarrow> bool" where
  "truthy_number (Finite r) = (r \<noteq> 0)"
| "truthy_number NegZero = False"
| "truthy_number Infinity = True"
| "truthy_number NegInfinity = True"
| "truthy_number NaN = False"

fun truthy :: "jsval \<Rightarrow> bool" where
  "truthy None = False"
| "truthy (Some JNull) = False"
| "truthy (Some (JBool b)) = b"
| "truthy (Some (JNum n)) = truthy_number n"
| "truthy (Some (JStr s)) = (s \<noteq> [])"
| "truthy (Some (JArr xs)) = True"
| "truthy (Some (JObj kvs)) = True"

subsection \<open>Numbers as text\<close>

definition digit_char :: "nat \<Rightarrow> char" where
  "digit_char n = ''0123456789'' ! n"

fun nat_digits :: "nat \<Rightarrow> string" where
  "nat_digits n = (if n < 10 then [digit_char n] else nat_digits (n div 10) @ [digit_char (n mod 10)])"

declare nat_digits.simps [simp del]

text \<open>A number written with at least \<open>w\<close> digits, zeros in front.\<close>

definition pad :: "nat \<Rightarrow> int \<Rightarrow> string" where
  "pad w i = (let ds = nat_digits (nat i) in replicate (w - length ds) CHR ''0'' @ ds)"

subsection \<open>The ISO-8601 rendering of a time\<close>

text \<open>
  \<^verbatim>\<open>Date.prototype.toISOString\<close> of a time value in milliseconds since the epoch, in
  UTC: \<^verbatim>\<open>YYYY-MM-DDTHH:mm:ss.sssZ\<close>, the year with a sign and six digits when it is
  outside 0 to 9999. The calendar date of a day number is computed in the proleptic
  Gregorian calendar, by 400-year eras starting on 1 March.
\<close>

definition civil_from_days :: "int \<Rightarrow> int \<times> int \<times> int" where
  "civil_from_days days =
     (let z = days + 719468;
          era = z div 146097;
          doe = z mod 146097;
          yoe = (doe - doe div 1460 + doe div 36524 - doe div 146096) div 365;
          doy = doe - (365 * yoe + yoe div 4 - yoe div 100);
          mp = (5 * doy + 2) div 153;
          d = doy - (153 * mp + 2) div 5 + 1;
          m = (if mp < 10 then mp + 3 else mp - 9);
          y = yoe + era * 400 + (if m \<le> 2 then 1 else 0)
      in (y, m, d))"

definition year_string :: "int \<Rightarrow> string" where
  "year_string y =
     (if 0 \<le> y \<and> y \<le> 9999 then pad 4 y
      else if y < 0 then CHR ''-'' # pad 6 (- y)
      else CHR ''+'' # pad 6 y)"

definition toISOString :: "int \<Rightarrow> string" where
  "toISOString t =
     (let (y, m, d) = civil_from_days (t div 86400000);
          r = t mod 86400000
      in year_string y @ ''-'' @ pad 2 m @ ''-'' @ pad 2 d @ ''T''
         @ pad 2 (r div 3600000) @ '':'' @ pad 2 (r div 60000 mod 60) @ '':''
         @ pad 2 (r div 1000 mod 60) @ ''.'' @ pad 3 (r mod 1000) @ ''Z'')"

subsection \<open>Doubles\<close>

text \<open>
  The double nearest to a rational, ties to the even significand: 53 bits of
  significand, exponents from -1022 (below which the spacing stays that of the
  subnormal numbers) to 1023, infinity from \<open>2\<^sup>1\<^sup>0\<^sup>2\<^sup>4\<close> on. A result of zero keeps the
  sign of the argument.
\<close>

definition pow :: "rat \<Rightarrow> int \<Rightarrow> rat" where
  "pow b e = (if 0 \<le> e then b ^ nat e else 1 / b ^ nat (- e))"

fun bit_length :: "nat \<Rightarrow> nat" where
  "bit_length n = (if n = 0 then 0 else Suc (bit_length (n div 2)))"

declare bit_length.simps [simp del]

text \<open>The exponent \<open>e\<close> with \<open>2\<^sup>e \<le> a < 2\<^sup>e\<^sup>+\<^sup>1\<close>, for a positive \<open>a\<close>.\<close>

definition floor_log2 :: "rat \<Rightarrow> int" where
  "floor_log2 a =
     (let (p, q) = quotient_of a;
          e = int (bit_length (nat p)) - int (bit_length (nat q))
      in if pow 2 e \<le> a then e else e - 1)"

definition round_half_even :: "rat \<Rightarrow> int" where
  "round_half_even x =
     (let f = \<lfloor>x\<rfloor>; r = x - of_int f
      in if r < 1 / 2 then f else if 1 / 2 < r then f + 1 else if even f then f else f + 1)"

definition round_to_double :: "rat \<Rightarrow> number" where
  "round_to_double q =
     (if q = 0 then Finite 0
      else let a = \<bar>q\<bar>;
               e = max (floor_log2 a) (- 1022);
               ulp = pow 2 (e - 52);
               v = of_int (round_half_even (a / ulp)) * ulp
           in if pow 2 1024 \<le> v then (if q < 0 then NegInfinity else Infinity)
              else if v = 0 then (if q < 0 then NegZero else Finite 0)
              else Finite (if q < 0 then - v else v))"

text \<open>
  \<^verbatim>\<open>Number::toString\<close> of a positive finite double \<open>x\<close>: the digits \<open>s\<close>, their
  count \<open>k\<close> and the position \<open>n\<close> of the decimal point are such that
  \<open>s \<times> 10\<^sup>n\<^sup>-\<^sup>k\<close> is read back as \<open>x\<close>, with \<open>k\<close> as small as possible and, among the
  digit strings of that length, the one nearest to \<open>x\<close>. Seventeen digits always
  suffice. \<open>decimal_exponent x\<close> is the \<open>n\<close> with \<open>10\<^sup>n\<^sup>-\<^sup>1 \<le> x < 10\<^sup>n\<close>; for each
  length the only digit strings that can be read back as \<open>x\<close> are the two around
  \<open>x\<close>.
\<close>

definition decimal_exponent :: "rat \<Rightarrow> int" where
  "decimal_exponent x =
     (let c = floor_log2 x * 30103 div 100000
      in case find (\<lambda>n. pow 10 (n - 1) \<le> x \<and> x < pow 10 n) [c - 1, c, c + 1, c + 2, c + 3] of
           Some n \<Rightarrow> n
         | None \<Rightarrow> c)"

definition candidate :: "rat \<Rightarrow> int \<Rightarrow> nat \<Rightarrow> int option" where
  "candidate x n k =
     (let sc = pow 10 (n - int k);
          lo = \<lfloor>x / sc\<rfloor>;
          hi = lo + 1;
          ok_lo = (round_to_double (of_int lo * sc) = Finite x);
          ok_hi = (round_to_double (of_int hi * sc) = Finite x);
          d_lo = x - of_int lo * sc;
          d_hi = of_int hi * sc - x
      in if ok_lo \<and> ok_hi then
           Some (if d_lo < d_hi then lo else if d_hi < d_lo then hi else if even lo then lo else hi)
         else if ok_lo then Some lo
         else if ok_hi then Some hi
         else None)"

fun shortest :: "rat \<Rightarrow> int \<Rightarrow> nat list \<Rightarrow> int \<times> nat \<times> int" where
  "shortest x n [] = (\<lfloor>x / pow 10 (n - 17)\<rfloor>, 17, n)"
| "shortest x n (k # ks) =
     (case candidate x n k of
        None \<Rightarrow> shortest x n ks
      | Some s \<Rightarrow> if s = 10 ^ k then (1, 1, n + 1) else (s, k, n))"

text \<open>
  The layout of the digits: plain digits with zeros behind them up to \<open>10\<^sup>2\<^sup>1\<close>, a
  decimal point inside the digits, up to six zeros in front of them, and the exponent
  notation otherwise.
\<close>

definition positive_text :: "rat \<Rightarrow> string" where
  "positive_text x =
     (let (s, k, n) = shortest x (decimal_exponent x) [1 ..< 18];
          ds = nat_digits (nat s);
          e = n - 1;
          es = (if e < 0 then ''-'' else ''+'') @ nat_digits (nat \<bar>e\<bar>)
      in if int k \<le> n \<and> n \<le> 21 then ds @ replicate (nat (n - int k)) CHR ''0''
         else if 0 < n \<and> n \<le> 21 then take (nat n) ds @ ''.'' @ drop (nat n) ds
         else if - 6 < n \<and> n \<le> 0 then ''0.'' @ replicate (nat (- n)) CHR ''0'' @ ds
         else if k = 1 then ds @ ''e'' @ es
         else take 1 ds @ ''.'' @ drop 1 ds @ ''e'' @ es)"

fun Number_text :: "number \<Rightarrow> string" where
  "Number_text NaN = ''NaN''"
| "Number_text NegZero = ''0''"
| "Number_text Infinity = ''Infinity''"
| "Number_text NegInfinity = ''-Infinity''"
| "Number_text (Finite r) =
     (if r = 0 then ''0'' else if r < 0 then CHR ''-'' # positive_text (- r) else positive_text r)"

text \<open>
  An integer as JavaScript prints it. Up to \<open>2\<^sup>5\<^sup>3\<close> every integer is a double and is
  printed with all its digits, with a minus sign when it is negative; every reading of
  the clock is in that range. A larger integer is printed as the double nearest to it.
\<close>

definition Number_toString :: "int \<Rightarrow> string" where
  "Number_toString i =
     (if \<bar>i\<bar> \<le> 2 ^ 53 then
        (if i < 0 then CHR ''-'' # nat_digits (nat (- i)) else nat_digits (nat i))
      else Number_text (round_to_double (of_int i)))"

subsection \<open>Conversion to a string\<close>

text \<open>
  A template literal \<^verbatim>\<open>`${v}`\<close> converts \<open>v\<close> to a string. For a parsed object this
  goes through its \<^verbatim>\<open>toString\<close> property: when the object has an own property of that
  name, its value is JSON data and not callable, \<^verbatim>\<open>valueOf\<close> gives the object back,
  and the conversion throws a TypeError; otherwise \<^verbatim>\<open>Object.prototype.toString\<close>
  answers. An array joins the conversions of its elements with commas, \<^verbatim>\<open>null\<close>
  elements giving the empty string.
\<close>

fun ToString_json :: "json \<Rightarrow> exn + string"
  and join_elems :: "json list \<Rightarrow> exn + string" where
  "ToString_json JNull = Inr ''null''"
| "ToString_json (JBool b) = Inr (if b then ''true'' else ''false'')"
| "ToString_json (JNum n) = Inr (Number_text n)"
| "ToString_json (JStr s) = Inr s"
| "ToString_json (JArr xs) = join_elems xs"
| "ToString_json (JObj kvs) =
     (if ''toString'' \<in> set (map fst kvs) then Inl TypeError else Inr ''[object Object]'')"
| "join_elems [] = Inr []"
| "join_elems (x # xs) =
     (case (if x = JNull then Inr [] else ToString_json x) of
        Inl e \<Rightarrow> Inl e
      | Inr s \<Rightarrow>
          (if xs = [] then Inr s
           else (case join_elems xs of Inl e \<Rightarrow> Inl e | Inr t \<Rightarrow> Inr (s @ '','' @ t))))"

definition ToString :: "jsval \<Rightarrow> exn + string" where
  "ToString v = (case v of None \<Rightarrow> Inr ''undefined'' | Some j \<Rightarrow> ToString_json j)"

text \<open>The interpolations of a template, left to right: the first conversion that throws ends it.\<close>

fun interpolate :: "jsval list \<Rightarrow> exn option" where
  "interpolate [] = None"
| "interpolate (v # vs) = (case ToString v of Inl e \<Rightarrow> Some e | Inr s \<Rightarrow> interpolate vs)"

section \<open>The world outside the handlers\<close>

text \<open>
  A mail as handed to \<^verbatim>\<open>transporter.sendMail\<close>. The subject and the HTML body are
  templates; each is represented by the template it is and the values interpolated into
  it. The restaurant body shows the notes only when they are truthy.
\<close>

datatype subject =
    New_Reservation_Request_from jsval
  | Reservation_Request_Received

datatype html =
    Restaurant_html jsval jsval jsval jsval jsval jsval jsval
  | Guest_html jsval jsval jsval jsval

record mail =
  mail_from :: "string option"
  mail_to :: jsval
  mail_subject :: subject
  mail_html :: html

text \<open>
  A stored file holds text. The text is represented by the value \<^verbatim>\<open>JSON.parse\<close>
  reads from it, and is \<open>Malformed\<close> when \<^verbatim>\<open>JSON.parse\<close> rejects it.
\<close>

datatype file_content = Json json | Malformed

datatype log =
    Log_Reservation_saved jsval string
  | Log_Emails_sent "string option" jsval
  | Err_Email_sending_failed exn
  | Err_processing_reservation exn
  | Log_Verifying
  | Log_Verified
  | Log_No_reservations
  | Log_Found nat
  | Log_Restaurant_email_sent jsval
  | Log_Confirmation_email_sent jsval
  | Log_blank
  | Err_Failed_to_send jsval exn
  | Log_All_emails_sent
  | Err_fatal exn

text \<open>
  The state both programs act on: the directory \<^verbatim>\<open>reservations-data\<close> as the list of
  its entries in the order \<^verbatim>\<open>readdirSync\<close> lists them, the mails handed to the
  transport so far (every attempt, whether it succeeded or not), and the console.
\<close>

record world =
  files :: "(string \<times> file_content) list"
  outbox :: "mail list"
  console :: "log list"

text \<open>
  The transport answers a send, given the attempts made before it: \<open>None\<close> when
  \<^verbatim>\<open>sendMail\<close> resolves, \<open>Some e\<close> when it rejects with \<open>e\<close>.
\<close>

type_synonym transport = "mail list \<Rightarrow> mail \<Rightarrow> exn option"

text \<open>
  The process environment and the disk: \<open>writeFileSync_error path\<close> is the error
  \<^verbatim>\<open>fs.writeFileSync\<close> throws for that path, if it throws.
\<close>

record env =
  GMAIL_USER :: "string option"
  GMAIL_PASSWORD :: "string option"
  NODE_ENV :: "string option"
  writeFileSync_error :: "string \<Rightarrow> exn option"

record server_state =
  transporter :: "transport option"
  emailConfigured :: bool

text \<open>The two readings of the clock one submission makes, in milliseconds since the epoch.\<close>

record clock =
  Date_now :: int
  new_Date :: int

record response =
  status :: nat
  success :: bool
  message :: "string option"
  error_detail :: "exn option"
  reservations :: "json list option"

definition emit :: "log \<Rightarrow> world \<Rightarrow> world" where
  "emit l w = w\<lparr>console := console w @ [l]\<rparr>"

definition startsWith :: "string \<Rightarrow> string \<Rightarrow> bool" where
  "startsWith s p = (take (length p) s = p)"

text \<open>
  \<^verbatim>\<open>fs.writeFileSync\<close> replaces the content of an existing entry and makes a new entry
  otherwise; a new entry is listed last.
\<close>

definition writeFile :: "string \<Rightarrow> file_content \<Rightarrow> (string \<times> file_content) list \<Rightarrow> (string \<times> file_content) list" where
  "writeFile n c fs =
     (if n \<in> set (map fst fs) then map (\<lambda>(m, d). if m = n then (m, c) else (m, d)) fs
      else fs @ [(n, c)])"

section \<open>server.js\<close>

subsection \<open>initializeEmail\<close>

text \<open>
  \<open>t\<close> is the transport \<^verbatim>\<open>nodemailer.createTransport\<close> makes, \<open>verify\<close> the error
  \<^verbatim>\<open>transporter.verify()\<close> rejects with, if it does. An environment variable counts
  as set when it is a non-empty string.
\<close>

definition env_set :: "string option \<Rightarrow> bool" where
  "env_set v = (case v of None \<Rightarrow> False | Some s \<Rightarrow> s \<noteq> [])"

definition initializeEmail :: "env \<Rightarrow> transport \<Rightarrow> exn option \<Rightarrow> server_state" where
  "initializeEmail e t verify =
     (if env_set (GMAIL_USER e) \<and> env_set (GMAIL_PASSWORD e) then
        (case verify of
           None \<Rightarrow> \<lparr>transporter = Some t, emailConfigured = True\<rparr>
         | Some err \<Rightarrow> \<lparr>transporter = Some t, emailConfigured = False\<rparr>)
      else \<lparr>transporter = None, emailConfigured = False\<rparr>)"

subsection \<open>POST /api/reservations\<close>

text \<open>The request body after destructuring: an absent property is \<open>None\<close>.\<close>

record body =
  name :: jsval
  phone :: jsval
  email :: jsval
  date :: jsval
  time :: jsval
  guests :: jsval
  notes' :: jsval

record reservationData =
  rd_id :: int
  rd_name :: jsval
  rd_phone :: jsval
  rd_email :: jsval
  rd_date :: jsval
  rd_time :: jsval
  rd_guests :: jsval
  rd_notes :: jsval
  rd_submittedAt :: string

text \<open>
  \<^verbatim>\<open>JSON.stringify\<close> writes a number that is not finite as \<^verbatim>\<open>null\<close> and the
  negative zero as \<^verbatim>\<open>0\<close>, inside arrays and objects as well; every other value it
  writes so that \<^verbatim>\<open>JSON.parse\<close> reads the same value back. \<open>stored v\<close> is the value
  that is read back from what is written for \<open>v\<close>.
\<close>

fun stored_number :: "number \<Rightarrow> json" where
  "stored_number (Finite r) = JNum (Finite r)"
| "stored_number NegZero = JNum (Finite 0)"
| "stored_number v = JNull"

fun stored :: "json \<Rightarrow> json" where
  "stored (JNum n) = stored_number n"
| "stored (JArr xs) = JArr (map stored xs)"
| "stored (JObj kvs) = JObj (map (\<lambda>p. (fst p, stored (snd p))) kvs)"
| "stored j = j"

text \<open>A property whose value is \<^verbatim>\<open>undefined\<close> is left out.\<close>

fun own_props :: "(string \<times> jsval) list \<Rightarrow> (string \<times> json) list" where
  "own_props [] = []"
| "own_props ((k, None) # ps) = own_props ps"
| "own_props ((k, Some v) # ps) = (k, v) # own_props ps"

definition JSON_stringify :: "reservationData \<Rightarrow> file_content" where
  "JSON_stringify r = Json (JObj (own_props
     [(''id'', Some (JNum (Finite (of_int (rd_id r))))),
      (''name'', map_option stored (rd_name r)),
      (''phone'', map_option stored (rd_phone r)),
      (''email'', map_option stored (rd_email r)),
      (''date'', map_option stored (rd_date r)),
      (''time'', map_option stored (rd_time r)),
      (''guests'', map_option stored (rd_guests r)),
      (''notes'', map_option stored (rd_notes r)),
      (''submittedAt'', Some (JStr (rd_submittedAt r)))]))"

definition check_mark :: string where
  "check_mark = [char_of (226::nat), char_of (156::nat), char_of (147::nat)]"

definition msg_missing :: string where
  "msg_missing = ''Missing required fields''"

definition msg_email_shortly :: string where
  "msg_email_shortly = check_mark @ '' Reservation submitted! You will receive a confirmation email shortly.''"

definition msg_will_contact :: string where
  "msg_will_contact = check_mark @ '' Reservation received! We will contact you shortly to confirm.''"

definition msg_failed :: string where
  "msg_failed = ''Failed to process reservation. Please try again or call (214) 555-1234''"

definition msg_retrieve :: string where
  "msg_retrieve = ''Failed to retrieve reservations''"

definition make_reservationData :: "clock \<Rightarrow> body \<Rightarrow> reservationData" where
  "make_reservationData clk b =
     \<lparr>rd_id = Date_now clk,
      rd_name = name b, rd_phone = phone b, rd_email = email b, rd_date = date b,
      rd_time = time b, rd_guests = guests b, rd_notes = notes' b,
      rd_submittedAt = toISOString (new_Date clk)\<rparr>"

definition file_name :: "int \<Rightarrow> string" where
  "file_name i = ''reservation-'' @ Number_toString i @ ''.json''"

definition mailOptions :: "env \<Rightarrow> body \<Rightarrow> mail" where
  "mailOptions e b =
     \<lparr>mail_from = GMAIL_USER e, mail_to = map_option JStr (GMAIL_USER e),
      mail_subject = New_Reservation_Request_from (name b),
      mail_html = Restaurant_html (name b) (phone b) (email b) (date b) (time b) (guests b)
                    (if truthy (notes' b) then notes' b else None)\<rparr>"

definition confirmationEmail :: "env \<Rightarrow> body \<Rightarrow> mail" where
  "confirmationEmail e b =
     \<lparr>mail_from = GMAIL_USER e, mail_to = email b,
      mail_subject = Reservation_Request_Received,
      mail_html = Guest_html (name b) (date b) (time b) (guests b)\<rparr>"

text \<open>The values the two templates convert to strings, in the order of the source.\<close>

definition mailOptions_parts :: "body \<Rightarrow> jsval list" where
  "mailOptions_parts b =
     [name b, name b, phone b, email b, date b, time b, guests b]
     @ (if truthy (notes' b) then [notes' b] else [])"

definition confirmationEmail_parts :: "body \<Rightarrow> jsval list" where
  "confirmationEmail_parts b = [name b, date b, time b, guests b]"

text \<open>
  The inner \<^verbatim>\<open>try\<close> block of the handler: both mails are built and sent inside one
  block, and its \<^verbatim>\<open>catch\<close> logs the error. The result is the final \<^verbatim>\<open>emailSent\<close>.
\<close>

definition send_emails :: "env \<Rightarrow> transport \<Rightarrow> body \<Rightarrow> world \<Rightarrow> bool \<times> world" where
  "send_emails e t b w =
     (case interpolate (mailOptions_parts b) of
        Some err \<Rightarrow> (False, emit (Err_Email_sending_failed err) w)
      | None \<Rightarrow>
          let w1 = w\<lparr>outbox := outbox w @ [mailOptions e b]\<rparr> in
          (case t (outbox w) (mailOptions e b) of
             Some err \<Rightarrow> (False, emit (Err_Email_sending_failed err) w1)
           | None \<Rightarrow>
               (case interpolate (confirmationEmail_parts b) of
                  Some err \<Rightarrow> (False, emit (Err_Email_sending_failed err) w1)
                | None \<Rightarrow>
                    let w2 = w1\<lparr>outbox := outbox w1 @ [confirmationEmail e b]\<rparr> in
                    (case t (outbox w1) (confirmationEmail e b) of
                       Some err \<Rightarrow> (False, emit (Err_Email_sending_failed err) w2)
                     | None \<Rightarrow>
                         (case interpolate [map_option JStr (GMAIL_USER e), email b] of
                            Some err \<Rightarrow> (True, emit (Err_Email_sending_failed err) w2)
                          | None \<Rightarrow> (True, emit (Log_Emails_sent (GMAIL_USER e) (email b)) w2))))))"

definition error_message :: "env \<Rightarrow> exn \<Rightarrow> exn option" where
  "error_message e err = (if NODE_ENV e = Some ''development'' then Some err else None)"

definition respond_500 :: "env \<Rightarrow> exn \<Rightarrow> world \<Rightarrow> response \<times> world" where
  "respond_500 e err w =
     (\<lparr>status = 500, success = False, message = Some msg_failed,
       error_detail = error_message e err, reservations = None\<rparr>,
      emit (Err_processing_reservation err) w)"

definition post_reservations :: "env \<Rightarrow> server_state \<Rightarrow> clock \<Rightarrow> body \<Rightarrow> world \<Rightarrow> response \<times> world" where
  "post_reservations e st clk b w =
     (if \<not> truthy (name b) \<or> \<not> truthy (phone b) \<or> \<not> truthy (email b)
         \<or> \<not> truthy (date b) \<or> \<not> truthy (time b) \<or> \<not> truthy (guests b)
      then (\<lparr>status = 400, success = False, message = Some msg_missing,
              error_detail = None, reservations = None\<rparr>, w)
      else
        let reservationData = make_reservationData clk b;
            filePath = file_name (rd_id reservationData)
        in (case writeFileSync_error e filePath of
              Some err \<Rightarrow> respond_500 e err w
            | None \<Rightarrow>
                let w1 = w\<lparr>files := writeFile filePath (JSON_stringify reservationData) (files w)\<rparr> in
                (case interpolate [name b, Some (JStr filePath)] of
                   Some err \<Rightarrow> respond_500 e err w1
                 | None \<Rightarrow>
                     let w2 = emit (Log_Reservation_saved (name b) filePath) w1;
                         (emailSent, w3) =
                           (case transporter st of
                              Some t \<Rightarrow> if emailConfigured st then send_emails e t b w2 else (False, w2)
                            | None \<Rightarrow> (False, w2))
                     in (\<lparr>status = 200, success = True,
                           message = Some (if emailSent then msg_email_shortly else msg_will_contact),
                           error_detail = None, reservations = None\<rparr>, w3))))"

subsection \<open>GET /api/reservations\<close>

definition JSON_parse :: "file_content \<Rightarrow> exn + json" where
  "JSON_parse c = (case c of Json j \<Rightarrow> Inr j | Malformed \<Rightarrow> Inl SyntaxError)"

text \<open>
  \<^verbatim>\<open>.map(f => JSON.parse(fs.readFileSync(...)))\<close> over the listed entries: the first
  file that does not parse throws, and the map ends there.
\<close>

fun parse_files :: "(string \<times> file_content) list \<Rightarrow> exn + json list" where
  "parse_files [] = Inr []"
| "parse_files ((f, c) # fs) =
     (case JSON_parse c of
        Inl e \<Rightarrow> Inl e
      | Inr j \<Rightarrow> (case parse_files fs of Inl e \<Rightarrow> Inl e | Inr js \<Rightarrow> Inr (j # js)))"

text \<open>
  Reading a property of a parsed value: \<^verbatim>\<open>null.p\<close> throws a TypeError, an object
  answers with its own property or \<^verbatim>\<open>undefined\<close>; a number, a string, a boolean or an
  array has none of the properties read here.
\<close>

definition get_prop :: "json \<Rightarrow> string \<Rightarrow> exn + jsval" where
  "get_prop j k =
     (case j of JNull \<Rightarrow> Inl TypeError | JObj kvs \<Rightarrow> Inr (map_of kvs k) | _ \<Rightarrow> Inr None)"

text \<open>
  \<open>StringToNumber\<close> reads a string as a number. White space on both sides is
  dropped: the ASCII control characters tab to carriage return, the space, and the
  Unicode spaces U+00A0, U+1680, U+2000 to U+200A, U+2028, U+2029, U+202F, U+205F,
  U+3000 and U+FEFF, here by their UTF-8 bytes.
\<close>

definition ascii_space :: "char list" where
  "ascii_space = [CHR 0x09, CHR 0x0A, CHR 0x0B, CHR 0x0C, CHR 0x0D, CHR 0x20]"

definition space2 :: "string list" where
  "space2 = [[CHR 0xC2, CHR 0xA0]]"

definition space3 :: "string list" where
  "space3 =
     [[CHR 0xE1, CHR 0x9A, CHR 0x80],
      [CHR 0xE2, CHR 0x80, CHR 0x80], [CHR 0xE2, CHR 0x80, CHR 0x81],
      [CHR 0xE2, CHR 0x80, CHR 0x82], [CHR 0xE2, CHR 0x80, CHR 0x83],
      [CHR 0xE2, CHR 0x80, CHR 0x84], [CHR 0xE2, CHR 0x80, CHR 0x85],
      [CHR 0xE2, CHR 0x80, CHR 0x86], [CHR 0xE2, CHR 0x80, CHR 0x87],
      [CHR 0xE2, CHR 0x80, CHR 0x88], [CHR 0xE2, CHR 0x80, CHR 0x89],
      [CHR 0xE2, CHR 0x80, CHR 0x8A], [CHR 0xE2, CHR 0x80, CHR 0xA8],
      [CHR 0xE2, CHR 0x80, CHR 0xA9], [CHR 0xE2, CHR 0x80, CHR 0xAF],
      [CHR 0xE2, CHR 0x81, CHR 0x9F], [CHR 0xE3, CHR 0x80, CHR 0x80],
      [CHR 0xEF, CHR 0xBB, CHR 0xBF]]"

text \<open>White space dropped from the front, given the two- and three-byte spaces.\<close>

fun strip :: "string list \<Rightarrow> string list \<Rightarrow> string \<Rightarrow> string" where
  "strip w2 w3 [] = []"
| "strip w2 w3 (c # s) =
     (if c \<in> set ascii_space then strip w2 w3 s
      else if c # take 1 s \<in> set w2 then strip w2 w3 (drop 1 s)
      else if c # take 2 s \<in> set w3 then strip w2 w3 (drop 2 s)
      else c # s)"

definition trim :: "string \<Rightarrow> string" where
  "trim s = rev (strip (map rev space2) (map rev space3) (rev (strip space2 space3 s)))"

text \<open>
  What is left is empty (the number 0), or a numeric literal: digits in radix 16, 8 or
  2 after \<^verbatim>\<open>0x\<close>, \<^verbatim>\<open>0o\<close> or \<^verbatim>\<open>0b\<close>; or, after an optional sign, \<^verbatim>\<open>Infinity\<close> or a
  decimal literal, that is digits with an optional point (at least one digit before or
  after it) and an optional exponent. Any other text is \<open>NaN\<close>. The value of the
  literal is rounded to the nearest double.
\<close>

definition digit_of :: "string \<Rightarrow> char \<Rightarrow> nat option" where
  "digit_of alphabet c = map_of (zip alphabet [0 ..< length alphabet]) c"

fun digits_value :: "string \<Rightarrow> nat \<Rightarrow> string \<Rightarrow> nat option" where
  "digits_value alphabet acc [] = Some acc"
| "digits_value alphabet acc (c # cs) =
     (case digit_of alphabet c of
        None \<Rightarrow> None
      | Some d \<Rightarrow> digits_value alphabet (length alphabet * acc + d) cs)"

definition decimal_digits :: "string \<Rightarrow> nat option" where
  "decimal_digits s = digits_value ''0123456789'' 0 s"

definition lower_hex :: "char \<Rightarrow> char" where
  "lower_hex c = (case map_of (zip ''ABCDEF'' ''abcdef'') c of None \<Rightarrow> c | Some d \<Rightarrow> d)"

definition radix_number :: "string \<Rightarrow> nat option" where
  "radix_number t =
     (if length t < 3 \<or> take 1 t \<noteq> ''0'' then None
      else if take 1 (drop 1 t) \<in> {''x'', ''X''} then
        digits_value ''0123456789abcdef'' 0 (map lower_hex (drop 2 t))
      else if take 1 (drop 1 t) \<in> {''o'', ''O''} then digits_value ''01234567'' 0 (drop 2 t)
      else if take 1 (drop 1 t) \<in> {''b'', ''B''} then digits_value ''01'' 0 (drop 2 t)
      else None)"

text \<open>A text without its sign, if it has one.\<close>

definition unsigned_part :: "string \<Rightarrow> string" where
  "unsigned_part t = (if take 1 t \<in> {''-'', ''+''} then drop 1 t else t)"

text \<open>The exponent of a decimal literal: nothing, or \<^verbatim>\<open>e\<close> or \<^verbatim>\<open>E\<close>, an optional sign and digits.\<close>

definition exponent_part :: "string \<Rightarrow> int option" where
  "exponent_part x =
     (if x = [] then Some 0
      else let ds = unsigned_part (drop 1 x)
           in if ds = [] then None
              else (case decimal_digits ds of
                      None \<Rightarrow> None
                    | Some n \<Rightarrow> Some (if take 1 (drop 1 x) = ''-'' then - int n else int n)))"

definition unsigned_decimal :: "string \<Rightarrow> rat option" where
  "unsigned_decimal u =
     (let m = takeWhile (\<lambda>c. c \<notin> set ''eE'') u;
          x = dropWhile (\<lambda>c. c \<notin> set ''eE'') u;
          ip = takeWhile (\<lambda>c. c \<noteq> CHR ''.'') m;
          fp = drop 1 (dropWhile (\<lambda>c. c \<noteq> CHR ''.'') m)
      in if ip = [] \<and> fp = [] then None
         else (case (decimal_digits ip, decimal_digits fp, exponent_part x) of
                 (Some i, Some f, Some e) \<Rightarrow>
                   Some ((of_nat i + of_nat f / 10 ^ length fp) * pow 10 e)
               | _ \<Rightarrow> None))"

definition negate :: "number \<Rightarrow> number" where
  "negate v =
     (case v of
        Finite r \<Rightarrow> if r = 0 then NegZero else Finite (- r)
      | NegZero \<Rightarrow> Finite 0
      | Infinity \<Rightarrow> NegInfinity
      | NegInfinity \<Rightarrow> Infinity
      | NaN \<Rightarrow> NaN)"

definition StringToNumber :: "string \<Rightarrow> number" where
  "StringToNumber s =
     (let t = trim s in
      if t = [] then Finite 0
      else (case radix_number t of
              Some n \<Rightarrow> round_to_double (of_nat n)
            | None \<Rightarrow>
                let v = (if unsigned_part t = ''Infinity'' then Infinity
                         else (case unsigned_decimal (unsigned_part t) of
                                 None \<Rightarrow> NaN
                               | Some q \<Rightarrow> round_to_double q))
                in if take 1 t = ''-'' then negate v else v))"

text \<open>
  An array or an object is first converted to a string, which may throw; \<open>undefined\<close>
  is \<open>NaN\<close>, \<^verbatim>\<open>null\<close> is 0, \<^verbatim>\<open>true\<close> is 1.
\<close>

fun ToNumber :: "jsval \<Rightarrow> exn + number" where
  "ToNumber None = Inr NaN"
| "ToNumber (Some JNull) = Inr (Finite 0)"
| "ToNumber (Some (JBool b)) = Inr (Finite (if b then 1 else 0))"
| "ToNumber (Some (JNum n)) = Inr n"
| "ToNumber (Some (JStr s)) = Inr (StringToNumber s)"
| "ToNumber (Some j) = (case ToString_json j of Inl e \<Rightarrow> Inl e | Inr s \<Rightarrow> Inr (StringToNumber s))"

text \<open>
  The difference of two numbers: \<open>NaN\<close> when one of them is, or when both are the same
  infinity; an infinity when one of them is infinite; otherwise the exact difference
  rounded to the nearest double, the zero being negative only for \<open>-0 - 0\<close>.
\<close>

fun finite_value :: "number \<Rightarrow> rat option" where
  "finite_value (Finite r) = Some r"
| "finite_value NegZero = Some 0"
| "finite_value v = None"

definition minus_number :: "number \<Rightarrow> number \<Rightarrow> number" where
  "minus_number x y =
     (case (finite_value x, finite_value y) of
        (Some a, Some b) \<Rightarrow>
          if x = NegZero \<and> y = Finite 0 then NegZero else round_to_double (a - b)
      | (Some a, None) \<Rightarrow> negate y
      | (None, Some b) \<Rightarrow> x
      | (None, None) \<Rightarrow> if x = NaN \<or> y = NaN \<or> x = y then NaN else x)"

text \<open>The comparator \<^verbatim>\<open>(a, b) => b.submittedAt - a.submittedAt\<close>.\<close>

definition by_submittedAt :: "json \<Rightarrow> json \<Rightarrow> exn + number" where
  "by_submittedAt a b =
     (case get_prop b ''submittedAt'' of
        Inl e \<Rightarrow> Inl e
      | Inr vb \<Rightarrow>
          (case get_prop a ''submittedAt'' of
             Inl e \<Rightarrow> Inl e
           | Inr va \<Rightarrow>
               (case ToNumber vb of
                  Inl e \<Rightarrow> Inl e
                | Inr nb \<Rightarrow>
                    (case ToNumber va of Inl e \<Rightarrow> Inl e | Inr na \<Rightarrow> Inr (minus_number nb na)))))"

text \<open>
  \<^verbatim>\<open>Array.prototype.sort\<close> with a comparator: the sort is stable, an element goes
  behind another only when the comparator answers a number above zero for the pair, and
  a comparator result of \<open>NaN\<close> counts as 0. An array of fewer than two elements never
  calls the comparator; in a longer one every element is compared at least once, so
  that the sort throws when the comparator throws for some element. The sort is modelled
  as the stable insertion sort. When the answers of the comparator are consistent this
  is the order every engine produces; when they are not (\<open>NaN\<close> for some pairs and
  numbers for others), the language leaves the order to the engine, and only that the
  result is a rearrangement of the array is common to all of them.
\<close>

fun goes_after :: "number \<Rightarrow> bool" where
  "goes_after (Finite v) = (0 < v)"
| "goes_after Infinity = True"
| "goes_after v = False"

fun insert_by :: "('a \<Rightarrow> 'a \<Rightarrow> exn + number) \<Rightarrow> 'a \<Rightarrow> 'a list \<Rightarrow> exn + 'a list" where
  "insert_by cmp x [] = Inr [x]"
| "insert_by cmp x (y # ys) =
     (case cmp x y of
        Inl e \<Rightarrow> Inl e
      | Inr v \<Rightarrow>
          (if goes_after v then (case insert_by cmp x ys of Inl e \<Rightarrow> Inl e | Inr r \<Rightarrow> Inr (y # r))
           else Inr (x # y # ys)))"

fun sort_by :: "('a \<Rightarrow> 'a \<Rightarrow> exn + number) \<Rightarrow> 'a list \<Rightarrow> exn + 'a list" where
  "sort_by cmp [] = Inr []"
| "sort_by cmp (x # xs) = (case sort_by cmp xs of Inl e \<Rightarrow> Inl e | Inr s \<Rightarrow> insert_by cmp x s)"

text \<open>
  The entries the handler reads: those whose name starts with \<^verbatim>\<open>reservation-\<close>, in the
  order of the listing, each with the content \<^verbatim>\<open>readFileSync\<close> returns for it. The
  directory exists (the server makes it when it starts) and its entries are regular
  files.
\<close>

definition reservation_files :: "world \<Rightarrow> (string \<times> file_content) list" where
  "reservation_files w = filter (\<lambda>(f, c). startsWith f ''reservation-'') (files w)"

definition get_reservations :: "world \<Rightarrow> response" where
  "get_reservations w =
     (let failed = \<lparr>status = 500, success = False, message = Some msg_retrieve,
                     error_detail = None, reservations = None\<rparr>
      in (case parse_files (reservation_files w) of
            Inl e \<Rightarrow> failed
          | Inr parsed \<Rightarrow>
              (case sort_by by_submittedAt parsed of
                 Inl e \<Rightarrow> failed
               | Inr in_order \<Rightarrow>
                   \<lparr>status = 200, success = True, message = None,
                    error_detail = None, reservations = Some in_order\<rparr>)))"

section \<open>send-confirmation-emails.js\<close>









section \<open>Notions used in the statements\<close>

text \<open>A submission is valid when it passes the handler's check of the six required fields.\<close>

definition valid :: "body \<Rightarrow> bool" where
  "valid b = (truthy (name b) \<and> truthy (phone b) \<and> truthy (email b)
              \<and> truthy (date b) \<and> truthy (time b) \<and> truthy (guests b))"

definition absent_or_empty :: "jsval \<Rightarrow> bool" where
  "absent_or_empty v = (v = None \<or> v = Some (JStr []))"

text \<open>The channel is ready when the handler's test \<^verbatim>\<open>emailConfigured && transporter\<close> holds.\<close>

definition ready :: "server_state \<Rightarrow> bool" where
  "ready st = (emailConfigured st \<and> transporter st \<noteq> None)"


text \<open>
  A value that \<^verbatim>\<open>JSON.stringify\<close> writes as it is: it holds no number that is not
  finite and no negative zero, at any depth.
\<close>

fun writable :: "json \<Rightarrow> bool" where
  "writable (JNum (Finite r)) = True"
| "writable (JNum n) = False"
| "writable (JArr xs) = list_all writable xs"
| "writable (JObj kvs) = list_all (\<lambda>p. writable (snd p)) kvs"
| "writable j = True"

definition writable_value :: "jsval \<Rightarrow> bool" where
  "writable_value v = (case v of None \<Rightarrow> True | Some j \<Rightarrow> writable j)"

definition writable_record :: "reservationData \<Rightarrow> bool" where
  "writable_record r =
     (writable_value (rd_name r) \<and> writable_value (rd_phone r) \<and> writable_value (rd_email r)
      \<and> writable_value (rd_date r) \<and> writable_value (rd_time r)
      \<and> writable_value (rd_guests r) \<and> writable_value (rd_notes r))"

text \<open>A parsed record whose \<^verbatim>\<open>submittedAt\<close> is a string with a colon in it, as every ISO-8601 time is.\<close>

definition has_timestamp :: "json \<Rightarrow> bool" where
  "has_timestamp j =
     (case get_prop j ''submittedAt'' of
        Inr (Some (JStr s)) \<Rightarrow> CHR '':'' \<in> set s
      | _ \<Rightarrow> False)"







subsection \<open>Concrete inputs\<close>

definition body_ok :: body where
  "body_ok = \<lparr>name = Some (JStr ''Asha''), phone = Some (JStr ''555-0100''),
     email = Some (JStr ''asha@example.com''), date = Some (JStr ''2025-03-08''),
     time = Some (JStr ''19:00''), guests = Some (JNum (Finite 4)), notes' = None\<rparr>"

definition env_ok :: env where
  "env_ok = \<lparr>GMAIL_USER = Some ''bistro@example.com'', GMAIL_PASSWORD = Some ''secret'',
     NODE_ENV = None, writeFileSync_error = (\<lambda>p. None)\<rparr>"

definition env_disk_full :: env where
  "env_disk_full = env_ok\<lparr>writeFileSync_error := (\<lambda>p. Some (SystemError ''ENOSPC''))\<rparr>"

definition clock0 :: clock where
  "clock0 = \<lparr>Date_now = 1740852000000, new_Date = 1740852000000\<rparr>"

definition world0 :: world where
  "world0 = \<lparr>files = [], outbox = [], console = []\<rparr>"

definition st_disabled :: server_state where
  "st_disabled = \<lparr>transporter = None, emailConfigured = False\<rparr>"

definition accept_all :: transport where
  "accept_all h m = None"

definition reject_restaurant :: transport where
  "reject_restaurant h m =
     (if mail_subject m = Reservation_Request_Received then None
      else Some (MailError ''rejected''))"


definition st_ready :: "transport \<Rightarrow> server_state" where
  "st_ready t = \<lparr>transporter = Some t, emailConfigured = True\<rparr>"

definition body_odd_name :: body where
  "body_odd_name = body_ok\<lparr>name := Some (JObj [(''toString'', JNum (Finite 1))])\<rparr>"


definition body_huge_guests :: body where
  "body_huge_guests = body_ok\<lparr>guests := Some (JNum Infinity)\<rparr>"

definition body_minus_zero_notes :: body where
  "body_minus_zero_notes = body_ok\<lparr>notes' := Some (JNum NegZero)\<rparr>"

definition body_other :: body where
  "body_other = \<lparr>name = Some (JStr ''Bo''), phone = Some (JStr ''555-0101''),
     email = Some (JStr ''bo@example.com''), date = Some (JStr ''2025-03-09''),
     time = Some (JStr ''20:00''), guests = Some (JNum (Finite 2)), notes' = None\<rparr>"

definition world_taken :: world where
  "world_taken = \<lparr>files = [(''reservation-1740852000000.json'',
       JSON_stringify (make_reservationData clock0 body_ok))], outbox = [], console = []\<rparr>"

definition record1 :: json where
  "record1 = JObj [(''id'', JNum (Finite 1740852000000)), (''name'', JStr ''Asha''),
     (''phone'', JStr ''555-0100''), (''email'', JStr ''asha@example.com''),
     (''date'', JStr ''2025-03-08''), (''time'', JStr ''19:00''), (''guests'', JNum (Finite 4)),
     (''submittedAt'', JStr ''2025-03-01T18:00:00.000Z'')]"

definition record2 :: json where
  "record2 = JObj [(''id'', JNum (Finite 1740938400000)), (''name'', JStr ''Bo''),
     (''phone'', JStr ''555-0101''), (''email'', JStr ''bo@example.com''),
     (''date'', JStr ''2025-03-09''), (''time'', JStr ''20:00''), (''guests'', JNum (Finite 2)),
     (''submittedAt'', JStr ''2025-03-02T18:00:00.000Z'')]"

definition record3 :: json where
  "record3 = JObj [(''id'', JNum (Finite 1741024800000)), (''name'', JStr ''Chen''),
     (''phone'', JStr ''555-0102''), (''email'', JStr ''chen@example.com''),
     (''date'', JStr ''2025-03-10''), (''time'', JStr ''18:30''), (''guests'', JNum (Finite 6)),
     (''submittedAt'', JStr ''2025-03-03T18:00:00.000Z'')]"

definition world_one_bad :: world where
  "world_one_bad = \<lparr>files = [(''reservation-1.json'', Json record1), (''reservation-2.json'', Malformed)],
     outbox = [], console = []\<rparr>"



definition world_three :: world where
  "world_three = \<lparr>files = [(''reservation-1740852000000.json'', Json record1),
       (''reservation-1740938400000.json'', Json record2),
       (''reservation-1741024800000.json'', Json record3)],
     outbox = [], console = []\<rparr>"

section \<open>Validation\<close>

lemma absent_or_empty_falsy: "absent_or_empty v \<Longrightarrow> \<not> truthy v"
  by (auto simp: absent_or_empty_def)

text \<open>
  Claim C5. A submission in which one of name, phone, email, date, time or guests is
  absent or empty is answered with status 400, \<open>success = false\<close> and the message
  "Missing required fields"; the world is left as it was: no file is written, no mail is
  handed to the transport, nothing is logged.
\<close>

theorem missing_field_rejected:
  assumes "absent_or_empty (name b) \<or> absent_or_empty (phone b) \<or> absent_or_empty (email b)
         \<or> absent_or_empty (date b) \<or> absent_or_empty (time b) \<or> absent_or_empty (guests b)"
  shows "post_reservations e st clk b w =
           (\<lparr>status = 400, success = False, message = Some ''Missing required fields'',
             error_detail = None, reservations = None\<rparr>, w)"
  using assms absent_or_empty_falsy
  by (auto simp: post_reservations_def msg_missing_def)

theorem missing_field_rejected_witness:
  "absent_or_empty (guests (body_ok\<lparr>guests := Some (JStr [])\<rparr>)) \<and>
   post_reservations env_ok (st_ready accept_all) clock0 (body_ok\<lparr>guests := Some (JStr [])\<rparr>) world0 =
           (\<lparr>status = 400, success = False, message = Some ''Missing required fields'',
             error_detail = None, reservations = None\<rparr>, world0)"
  using missing_field_rejected [of "body_ok\<lparr>guests := Some (JStr [])\<rparr>" env_ok "st_ready accept_all" clock0 world0]
  by (simp add: absent_or_empty_def)

section \<open>Storage failure\<close>



section \<open>Listing\<close>

lemma parse_files_malformed:
  "(f, Malformed) \<in> set fs \<Longrightarrow> parse_files fs = Inl SyntaxError"
proof (induction fs)
  case Nil
  then show ?case by simp
next
  case (Cons p fs)
  obtain g c where p: "p = (g, c)" by (cases p)
  show ?case
  proof (cases c)
    case (Json j)
    with Cons p have "parse_files fs = Inl SyntaxError" by auto
    with Json p show ?thesis by (simp add: JSON_parse_def)
  next
    case Malformed
    with p show ?thesis by (simp add: JSON_parse_def)
  qed
qed

text \<open>
  Claim C10. When some file whose name starts with \<^verbatim>\<open>reservation-\<close> holds text that
  is not JSON, the listing answers status 500 with the message "Failed to retrieve
  reservations" and no records at all.
\<close>

theorem malformed_file_fails_listing:
  assumes "(f, Malformed) \<in> set (files w)" and "startsWith f ''reservation-''"
  shows "get_reservations w =
           \<lparr>status = 500, success = False, message = Some ''Failed to retrieve reservations'',
            error_detail = None, reservations = None\<rparr>"
proof -
  from assms have "(f, Malformed) \<in> set (reservation_files w)"
    by (simp add: reservation_files_def)
  then have "parse_files (reservation_files w) = Inl SyntaxError"
    by (rule parse_files_malformed)
  then show ?thesis by (simp add: get_reservations_def msg_retrieve_def)
qed

theorem malformed_file_fails_listing_witness:
  "(''reservation-2.json'', Malformed) \<in> set (files world_one_bad)
   \<and> startsWith ''reservation-2.json'' ''reservation-''
   \<and> get_reservations world_one_bad =
           \<lparr>status = 500, success = False, message = Some ''Failed to retrieve reservations'',
            error_detail = None, reservations = None\<rparr>"
proof -
  have m: "(''reservation-2.json'', Malformed) \<in> set (files world_one_bad)"
    by (simp add: world_one_bad_def)
  have p: "startsWith ''reservation-2.json'' ''reservation-''"
    by (simp add: startsWith_def)
  show ?thesis using malformed_file_fails_listing [OF m p] m p by simp
qed

lemma own_props_absent: "k \<notin> set (map fst ps) \<Longrightarrow> map_of (own_props ps) k = None"
  by (induction ps rule: own_props.induct) auto

lemma map_of_own_props:
  "distinct (map fst ps) \<Longrightarrow>
   map_of (own_props ps) k = (case map_of ps k of Some (Some v) \<Rightarrow> Some v | _ \<Rightarrow> None)"
proof (induction ps rule: own_props.induct)
  case 1
  then show ?case by simp
next
  case (2 k' ps)
  then show ?case by (auto simp: own_props_absent)
next
  case (3 k' v ps)
  then show ?case by auto
qed

lemma opt_collapse: "(case v of None \<Rightarrow> None | Some x \<Rightarrow> Some x) = v"
  by (cases v) auto

lemma startsWith_file_name: "startsWith (file_name i) ''reservation-''"
  by (simp add: startsWith_def file_name_def)

lemma writeFile_holds: "(n, c) \<in> set (writeFile n c fs)"
proof (cases "n \<in> set (map fst fs)")
  case True
  then obtain d where "(n, d) \<in> set fs" by auto
  then have "(\<lambda>(m, d). if m = n then (m, c) else (m, d)) (n, d)
      \<in> (\<lambda>(m, d). if m = n then (m, c) else (m, d)) ` set fs"
    by (rule imageI)
  with True show ?thesis by (simp add: writeFile_def)
next
  case False
  then show ?thesis by (simp add: writeFile_def)
qed

lemma stored_writable: "writable j \<Longrightarrow> stored j = j"
proof (induction j)
  case (JNum n)
  then show ?case by (cases n) simp_all
next
  case (JArr xs)
  then have "map stored xs = xs"
    by (intro map_idI) (simp add: list_all_iff)
  then show ?case by simp
next
  case (JObj kvs)
  have "map (\<lambda>p. (fst p, stored (snd p))) kvs = kvs"
  proof (rule map_idI)
    fix p assume p: "p \<in> set kvs"
    with JObj.prems have w: "writable (snd p)" by (simp add: list_all_iff)
    from p have "snd p \<in> Basic_BNFs.snds p" by (simp add: snds.simps)
    with p w JObj.IH have "stored (snd p) = snd p" by blast
    then show "(fst p, stored (snd p)) = p" by simp
  qed
  then show ?case by simp
qed simp_all

lemma stored_writable_value: "writable_value v \<Longrightarrow> map_option stored v = v"
  by (cases v) (simp_all add: writable_value_def stored_writable)

lemma parse_files_member:
  "parse_files fs = Inr js \<Longrightarrow> (f, Json j) \<in> set fs \<Longrightarrow> j \<in> set js"
proof (induction fs arbitrary: js)
  case Nil
  then show ?case by simp
next
  case (Cons p fs)
  obtain g c where p: "p = (g, c)" by (cases p)
  from Cons.prems(1) p obtain k where c: "c = Json k"
    by (cases c) (simp_all add: JSON_parse_def)
  from Cons.prems(1) p c obtain ks where ks: "parse_files fs = Inr ks"
    by (cases "parse_files fs") (simp_all add: JSON_parse_def)
  from Cons.prems(1) p c ks have js: "js = k # ks"
    by (simp add: JSON_parse_def)
  from Cons.prems(2) p c consider "j = k" | "(f, Json j) \<in> set fs" by auto
  then show ?case
  proof cases
    case 1
    with js show ?thesis by simp
  next
    case 2
    with Cons.IH [OF ks] js show ?thesis by simp
  qed
qed

lemma set_insert_by: "insert_by cmp x ys = Inr zs \<Longrightarrow> set zs = insert x (set ys)"
proof (induction ys arbitrary: zs)
  case Nil
  then show ?case by auto
next
  case (Cons y ys)
  from Cons.prems obtain v where v: "cmp x y = Inr v"
    by (cases "cmp x y") simp_all
  show ?case
  proof (cases "goes_after v")
    case True
    with Cons.prems v obtain r where r: "insert_by cmp x ys = Inr r"
      by (cases "insert_by cmp x ys") simp_all
    with Cons.prems v True have "zs = y # r" by simp
    with Cons.IH [OF r] show ?thesis by auto
  next
    case False
    with Cons.prems v have "zs = x # y # ys" by simp
    then show ?thesis by auto
  qed
qed

lemma set_sort_by: "sort_by cmp xs = Inr ys \<Longrightarrow> set ys = set xs"
proof (induction xs arbitrary: ys)
  case Nil
  then show ?case by simp
next
  case (Cons x xs)
  from Cons.prems obtain s where s: "sort_by cmp xs = Inr s"
    by (cases "sort_by cmp xs") simp_all
  with Cons.prems have i: "insert_by cmp x s = Inr ys" by simp
  from Cons.IH [OF s] set_insert_by [OF i] show ?case by simp
qed

lemma listed_are_parsed:
  assumes "reservations (get_reservations w) = Some rs"
  obtains js where "parse_files (reservation_files w) = Inr js" and "set rs = set js"
proof -
  from assms obtain js where p: "parse_files (reservation_files w) = Inr js"
    and s: "sort_by by_submittedAt js = Inr rs"
    by (auto simp: get_reservations_def Let_def split: sum.splits)
  from set_sort_by [OF s] p that show ?thesis by blast
qed

text \<open>
  Claim C4, as the code has it. A record whose field values hold no number that is not
  finite and no negative zero, once saved (serialised and written under its file name),
  is read back by the listing with every field equal to the field that was written; a
  field that was \<^verbatim>\<open>undefined\<close> is left out of the file and reads as \<^verbatim>\<open>undefined\<close>
  again. Alone in the directory it is the one record of the listing, and whatever else
  the directory holds, every listing that succeeds contains it.
\<close>

theorem save_then_list_roundtrip:
  assumes "writable_record r"
  shows "\<exists>j. reservations (get_reservations
            (w\<lparr>files := writeFile (file_name (rd_id r)) (JSON_stringify r) []\<rparr>)) = Some [j]
       \<and> (\<forall>rs. reservations (get_reservations
            (w\<lparr>files := writeFile (file_name (rd_id r)) (JSON_stringify r) (files w)\<rparr>)) = Some rs
            \<longrightarrow> j \<in> set rs)
       \<and> get_prop j ''id'' = Inr (Some (JNum (Finite (of_int (rd_id r)))))
       \<and> get_prop j ''name'' = Inr (rd_name r)
       \<and> get_prop j ''phone'' = Inr (rd_phone r)
       \<and> get_prop j ''email'' = Inr (rd_email r)
       \<and> get_prop j ''date'' = Inr (rd_date r)
       \<and> get_prop j ''time'' = Inr (rd_time r)
       \<and> get_prop j ''guests'' = Inr (rd_guests r)
       \<and> get_prop j ''notes'' = Inr (rd_notes r)
       \<and> get_prop j ''submittedAt'' = Inr (Some (JStr (rd_submittedAt r)))"
proof -
  define ps where "ps = [(''id'', Some (JNum (Finite (of_int (rd_id r))))), (''name'', rd_name r),
      (''phone'', rd_phone r), (''email'', rd_email r), (''date'', rd_date r),
      (''time'', rd_time r), (''guests'', rd_guests r), (''notes'', rd_notes r),
      (''submittedAt'', Some (JStr (rd_submittedAt r)))]"
  define j where "j = JObj (own_props ps)"
  define n where "n = file_name (rd_id r)"
  from assms have s: "JSON_stringify r = Json j"
    by (simp add: JSON_stringify_def j_def ps_def writable_record_def stored_writable_value)
  have d: "distinct (map fst ps)" by (simp add: ps_def)
  have g: "get_prop j k = Inr (case map_of ps k of Some (Some v) \<Rightarrow> Some v | _ \<Rightarrow> None)" for k
    by (simp add: get_prop_def j_def map_of_own_props [OF d])
  have l: "reservations (get_reservations (w\<lparr>files := writeFile n (Json j) []\<rparr>)) = Some [j]"
    by (simp add: get_reservations_def reservation_files_def writeFile_def n_def
        startsWith_file_name JSON_parse_def)
  have m: "j \<in> set rs"
    if "reservations (get_reservations (w\<lparr>files := writeFile n (Json j) (files w)\<rparr>)) = Some rs"
    for rs
  proof -
    from that obtain js where
      p: "parse_files (reservation_files (w\<lparr>files := writeFile n (Json j) (files w)\<rparr>)) = Inr js"
      and e: "set rs = set js"
      by (rule listed_are_parsed)
    have "(n, Json j) \<in> set (reservation_files (w\<lparr>files := writeFile n (Json j) (files w)\<rparr>))"
      by (simp add: reservation_files_def writeFile_holds n_def startsWith_file_name)
    with p have "j \<in> set js" by (rule parse_files_member)
    with e show ?thesis by simp
  qed
  show ?thesis
    unfolding s n_def [symmetric]
    apply (rule exI [of _ j])
    apply (intro conjI allI impI)
              apply (rule l)
             apply (erule m)
            apply (simp_all add: g ps_def opt_collapse)
    done
qed
theorem save_then_list_roundtrip_witness:
  "writable_record (make_reservationData clock0 body_ok)
   \<and> (\<exists>j. reservations (get_reservations
            (world_three\<lparr>files := writeFile (file_name 1740852000000)
               (JSON_stringify (make_reservationData clock0 body_ok)) []\<rparr>)) = Some [j]
        \<and> get_prop j ''id'' = Inr (Some (JNum (Finite 1740852000000)))
        \<and> get_prop j ''name'' = Inr (Some (JStr ''Asha''))
        \<and> get_prop j ''guests'' = Inr (Some (JNum (Finite 4)))
        \<and> get_prop j ''notes'' = Inr None
        \<and> get_prop j ''submittedAt'' = Inr (Some (JStr (toISOString 1740852000000))))"
proof -
  have w: "writable_record (make_reservationData clock0 body_ok)"
    by (simp add: writable_record_def writable_value_def make_reservationData_def body_ok_def)
  from save_then_list_roundtrip [OF w, of world_three] obtain j where
    "reservations (get_reservations
        (world_three\<lparr>files := writeFile (file_name (rd_id (make_reservationData clock0 body_ok)))
           (JSON_stringify (make_reservationData clock0 body_ok)) []\<rparr>)) = Some [j]"
    "get_prop j ''id'' = Inr (Some (JNum (Finite (of_int (rd_id (make_reservationData clock0 body_ok))))))"
    "get_prop j ''name'' = Inr (rd_name (make_reservationData clock0 body_ok))"
    "get_prop j ''guests'' = Inr (rd_guests (make_reservationData clock0 body_ok))"
    "get_prop j ''notes'' = Inr (rd_notes (make_reservationData clock0 body_ok))"
    "get_prop j ''submittedAt'' = Inr (Some (JStr (rd_submittedAt (make_reservationData clock0 body_ok))))"
    by blast
  then have "reservations (get_reservations
            (world_three\<lparr>files := writeFile (file_name 1740852000000)
               (JSON_stringify (make_reservationData clock0 body_ok)) []\<rparr>)) = Some [j]
        \<and> get_prop j ''id'' = Inr (Some (JNum (Finite 1740852000000)))
        \<and> get_prop j ''name'' = Inr (Some (JStr ''Asha''))
        \<and> get_prop j ''guests'' = Inr (Some (JNum (Finite 4)))
        \<and> get_prop j ''notes'' = Inr None
        \<and> get_prop j ''submittedAt'' = Inr (Some (JStr (toISOString 1740852000000)))"
    by (simp add: make_reservationData_def body_ok_def clock0_def)
  with w show ?thesis by blast
qed


lemma in_drop: "c \<in> set s \<Longrightarrow> c \<notin> set (take n s) \<Longrightarrow> c \<in> set (drop n s)"
proof -
  assume a: "c \<in> set s" and b: "c \<notin> set (take n s)"
  have "set s = set (take n s) \<union> set (drop n s)"
    by (metis append_take_drop_id set_append)
  with a b show ?thesis by simp
qed

lemma strip_keeps:
  "c \<in> set s \<Longrightarrow> c \<notin> set ascii_space \<Longrightarrow> \<forall>w \<in> set w2 \<union> set w3. c \<notin> set w
   \<Longrightarrow> c \<in> set (strip w2 w3 s)"
proof (induction w2 w3 s rule: strip.induct)
  case (1 w2 w3)
  then show ?case by simp
next
  case (2 w2 w3 d s)
  show ?case
  proof (cases "d \<in> set ascii_space")
    case True
    with "2.prems" have "c \<in> set s" by auto
    with True "2.IH"(1) "2.prems" show ?thesis by simp
  next
    case n1: False
    show ?thesis
    proof (cases "d # take 1 s \<in> set w2")
      case True
      with "2.prems" have "c \<notin> set (d # take 1 s)" by blast
      with "2.prems"(1) have "c \<in> set (drop 1 s)" by (auto intro: in_drop)
      with n1 True "2.IH"(2) "2.prems" show ?thesis by simp
    next
      case n2: False
      show ?thesis
      proof (cases "d # take 2 s \<in> set w3")
        case True
        with "2.prems" have "c \<notin> set (d # take 2 s)" by blast
        with "2.prems"(1) have "c \<in> set (drop 2 s)" by (auto intro: in_drop)
        with n1 n2 True "2.IH"(3) "2.prems" show ?thesis by simp
      next
        case False
        with n1 n2 "2.prems" show ?thesis by simp
      qed
    qed
  qed
qed

lemma colon_no_space:
  "CHR '':'' \<notin> set ascii_space"
  "\<forall>w \<in> set space2 \<union> set space3. CHR '':'' \<notin> set w"
  "\<forall>w \<in> set (map rev space2) \<union> set (map rev space3). CHR '':'' \<notin> set w"
  by (simp_all add: ascii_space_def space2_def space3_def)

lemma trim_keeps_colon: "CHR '':'' \<in> set s \<Longrightarrow> CHR '':'' \<in> set (trim s)"
  by (simp add: trim_def strip_keeps colon_no_space)

lemma digits_value_None:
  "c \<in> set cs \<Longrightarrow> digit_of alphabet c = None \<Longrightarrow> digits_value alphabet acc cs = None"
  by (induction cs arbitrary: acc) (auto split: option.splits)

lemma colon_no_digit:
  "digit_of ''0123456789'' CHR '':'' = None"
  "digit_of ''0123456789abcdef'' CHR '':'' = None"
  "digit_of ''01234567'' CHR '':'' = None"
  "digit_of ''01'' CHR '':'' = None"
  by (simp_all add: digit_of_def)

lemma decimal_digits_colon: "CHR '':'' \<in> set s \<Longrightarrow> decimal_digits s = None"
  by (simp add: decimal_digits_def digits_value_None colon_no_digit)

lemma colon_after:
  assumes "CHR '':'' \<in> set s" and "take 1 s = [d]" and "d \<noteq> CHR '':''"
  shows "CHR '':'' \<in> set (drop 1 s)"
  using assms by (cases s) auto

lemma unsigned_part_colon:
  assumes "CHR '':'' \<in> set t"
  shows "CHR '':'' \<in> set (unsigned_part t)"
proof (cases "take 1 t \<in> {''-'', ''+''}")
  case True
  then obtain d where "take 1 t = [d]" "d \<noteq> CHR '':''" by auto
  with assms have "CHR '':'' \<in> set (drop 1 t)" by (rule colon_after)
  with True show ?thesis by (simp add: unsigned_part_def)
next
  case False
  with assms show ?thesis by (simp add: unsigned_part_def)
qed

lemma radix_number_colon:
  assumes "CHR '':'' \<in> set t"
  shows "radix_number t = None"
proof (cases "length t < 3 \<or> take 1 t \<noteq> ''0''")
  case True
  then show ?thesis by (simp add: radix_number_def)
next
  case False
  then have "take 1 t = ''0''" by simp
  with assms have c1: "CHR '':'' \<in> set (drop 1 t)" by (rule colon_after) simp
  show ?thesis
  proof (cases "take 1 (drop 1 t) \<in> {''x'', ''X'', ''o'', ''O'', ''b'', ''B''}")
    case True
    then obtain d where "take 1 (drop 1 t) = [d]" "d \<noteq> CHR '':''" by auto
    with c1 have "CHR '':'' \<in> set (drop 1 (drop 1 t))" by (rule colon_after)
    then have c2: "CHR '':'' \<in> set (drop 2 t)" by (simp add: numeral_2_eq_2)
    have l: "lower_hex CHR '':'' = CHR '':''" by (simp add: lower_hex_def)
    have "lower_hex CHR '':'' \<in> lower_hex ` set (drop 2 t)" using c2 by (rule imageI)
    then have c3: "CHR '':'' \<in> set (map lower_hex (drop 2 t))" by (simp add: l)
    show ?thesis
      by (simp add: radix_number_def digits_value_None [OF c2] digits_value_None [OF c3]
          colon_no_digit)
  next
    case n: False
    then show ?thesis by (simp add: radix_number_def)
  qed
qed

lemma exponent_part_colon:
  assumes "CHR '':'' \<in> set x" and "take 1 x = [d]" and "d \<noteq> CHR '':''"
  shows "exponent_part x = None"
proof -
  from assms have "CHR '':'' \<in> set (drop 1 x)" by (rule colon_after)
  then have c: "CHR '':'' \<in> set (unsigned_part (drop 1 x))" by (rule unsigned_part_colon)
  then have "unsigned_part (drop 1 x) \<noteq> []" by auto
  with c assms(1) show ?thesis
    by (auto simp: exponent_part_def Let_def decimal_digits_colon)
qed

lemma dropWhile_first:
  "dropWhile P s = [] \<or> (\<exists>d. take 1 (dropWhile P s) = [d] \<and> \<not> P d)"
proof (cases "dropWhile P s")
  case Nil
  then show ?thesis by simp
next
  case (Cons d r)
  then have "dropWhile P s \<noteq> []" by simp
  then have "\<not> P (hd (dropWhile P s))" by (rule hd_dropWhile)
  with Cons show ?thesis by simp
qed

lemma unsigned_decimal_colon:
  assumes "CHR '':'' \<in> set u"
  shows "unsigned_decimal u = None"
proof -
  define m where "m = takeWhile (\<lambda>c. c \<notin> set ''eE'') u"
  define x where "x = dropWhile (\<lambda>c. c \<notin> set ''eE'') u"
  define ip where "ip = takeWhile (\<lambda>c. c \<noteq> CHR ''.'') m"
  define dp where "dp = dropWhile (\<lambda>c. c \<noteq> CHR ''.'') m"
  have "u = m @ x" unfolding m_def x_def by simp
  moreover have "m = ip @ dp" unfolding ip_def dp_def by simp
  ultimately have "set u = set ip \<union> set dp \<union> set x" by auto
  with assms consider "CHR '':'' \<in> set ip" | "CHR '':'' \<in> set dp" | "CHR '':'' \<in> set x"
    by auto
  then have "decimal_digits ip = None \<or> decimal_digits (drop 1 dp) = None \<or> exponent_part x = None"
  proof cases
    case 1
    then show ?thesis by (simp add: decimal_digits_colon)
  next
    case 2
    then have "dp \<noteq> []" by auto
    with dropWhile_first [of "\<lambda>c. c \<noteq> CHR ''.''" m]
    obtain d where "take 1 dp = [d]" "d \<noteq> CHR '':''" unfolding dp_def by auto
    with 2 have "CHR '':'' \<in> set (drop 1 dp)" by (rule colon_after)
    then show ?thesis by (simp add: decimal_digits_colon)
  next
    case 3
    then have "x \<noteq> []" by auto
    with dropWhile_first [of "\<lambda>c. c \<notin> set ''eE''" u]
    obtain d where "take 1 x = [d]" "d \<noteq> CHR '':''" unfolding x_def by auto
    with 3 show ?thesis by (simp add: exponent_part_colon)
  qed
  then show ?thesis
    unfolding unsigned_decimal_def Let_def m_def [symmetric] x_def [symmetric]
      ip_def [symmetric] dp_def [symmetric]
    by (auto split: option.splits)
qed

lemma StringToNumber_colon:
  assumes "CHR '':'' \<in> set s"
  shows "StringToNumber s = NaN"
proof -
  define t where "t = trim s"
  have c: "CHR '':'' \<in> set t"
    using assms by (simp add: t_def trim_keeps_colon)
  then have ne: "t \<noteq> []" by auto
  have r: "radix_number t = None" using c by (rule radix_number_colon)
  have cu: "CHR '':'' \<in> set (unsigned_part t)" using c by (rule unsigned_part_colon)
  then have d: "unsigned_decimal (unsigned_part t) = None" by (rule unsigned_decimal_colon)
  from cu have i: "unsigned_part t \<noteq> ''Infinity''" by auto
  show ?thesis
    unfolding StringToNumber_def Let_def t_def [symmetric]
    by (simp add: ne r d i negate_def)
qed

lemma by_submittedAt_NaN:
  assumes "has_timestamp a" and "has_timestamp b"
  shows "by_submittedAt a b = Inr NaN"
proof -
  from assms(1) obtain s where a: "get_prop a ''submittedAt'' = Inr (Some (JStr s))" "CHR '':'' \<in> set s"
    by (auto simp: has_timestamp_def split: sum.splits option.splits json.splits)
  from assms(2) obtain u where b: "get_prop b ''submittedAt'' = Inr (Some (JStr u))" "CHR '':'' \<in> set u"
    by (auto simp: has_timestamp_def split: sum.splits option.splits json.splits)
  show ?thesis
    by (simp add: by_submittedAt_def a b StringToNumber_colon minus_number_def)
qed

lemma sort_by_all_NaN:
  "(\<And>x y. x \<in> set xs \<Longrightarrow> y \<in> set xs \<Longrightarrow> cmp x y = Inr NaN) \<Longrightarrow> sort_by cmp xs = Inr xs"
proof (induction xs)
  case Nil
  then show ?case by simp
next
  case (Cons x xs)
  then have "sort_by cmp xs = Inr xs" by simp
  moreover have "insert_by cmp x xs = Inr (x # xs)"
  proof (cases xs)
    case Nil
    then show ?thesis by simp
  next
    case (Cons y ys)
    with Cons.prems have "cmp x y = Inr NaN" by simp
    with Cons show ?thesis by simp
  qed
  ultimately show ?case by simp
qed

lemma sort_by_submittedAt_keeps_order:
  "\<forall>j \<in> set js. has_timestamp j \<Longrightarrow> sort_by by_submittedAt js = Inr js"
  by (rule sort_by_all_NaN) (simp add: by_submittedAt_NaN)

lemma toISOString_colon: "CHR '':'' \<in> set (toISOString t)"
  by (cases "civil_from_days (t div 86400000)") (simp add: toISOString_def Let_def)

lemma has_timestamp_stringify:
  "JSON_stringify (make_reservationData clk b) = Json j \<Longrightarrow> has_timestamp j"
  by (auto simp: JSON_stringify_def make_reservationData_def has_timestamp_def get_prop_def
      map_of_own_props toISOString_colon)

lemma listing_keeps_directory_order:
  assumes "parse_files (reservation_files w) = Inr js" and "\<forall>j \<in> set js. has_timestamp j"
  shows "get_reservations w =
           \<lparr>status = 200, success = True, message = None, error_detail = None,
            reservations = Some js\<rparr>"
  using assms by (simp add: get_reservations_def sort_by_submittedAt_keeps_order)

text \<open>
  Claim C1 says the listing is in descending order of submission time: T3, T2, T1 for
  records submitted at T1 < T2 < T3. The comparator subtracts two ISO-8601 strings,
  which gives \<open>NaN\<close> for every pair, so the sort moves nothing: three records that the
  directory lists in the order T1, T2, T3 are returned as T1, T2, T3.
\<close>

theorem listing_not_descending:
  "get_reservations world_three =
     \<lparr>status = 200, success = True, message = None, error_detail = None,
      reservations = Some [record1, record2, record3]\<rparr>"
proof -
  have p: "parse_files (reservation_files world_three) = Inr [record1, record2, record3]"
    by (simp add: reservation_files_def world_three_def startsWith_def JSON_parse_def)
  have "\<forall>j \<in> set [record1, record2, record3]. has_timestamp j"
    by (simp add: has_timestamp_def get_prop_def record1_def record2_def record3_def)
  then have "sort_by by_submittedAt [record1, record2, record3] = Inr [record1, record2, record3]"
    by (rule sort_by_submittedAt_keeps_order)
  with p show ?thesis by (simp add: get_reservations_def)
qed

section \<open>Submissions\<close>

lemma nat_digits_small: "n < 10 \<Longrightarrow> nat_digits n = [digit_char n]"
  by (simp add: nat_digits.simps)

lemma nat_digits_large:
  "\<not> n < 10 \<Longrightarrow> nat_digits n = nat_digits (n div 10) @ [digit_char (n mod 10)]"
  by (subst nat_digits.simps) simp

lemma file_name_clock0: "file_name (Date_now clock0) = ''reservation-1740852000000.json''"
  by (simp add: clock0_def file_name_def Number_toString_def nat_digits_small nat_digits_large
      digit_char_def)

lemma interpolate_None_iff:
  "interpolate vs = None \<longleftrightarrow> (\<forall>v \<in> set vs. \<exists>s. ToString v = Inr s)"
  by (induction vs) (auto split: sum.splits)

lemma ToString_JStr: "ToString (Some (JStr s)) = Inr s"
  by (simp add: ToString_def)

lemma files_emit: "files (emit l w) = files w"
  by (simp add: emit_def)

lemma outbox_emit: "outbox (emit l w) = outbox w"
  by (simp add: emit_def)

lemma files_send_emails: "files (snd (send_emails e t b w)) = files w"
  by (simp add: send_emails_def Let_def files_emit split: option.splits)

lemma files_after_post:
  assumes "valid b" and "writeFileSync_error e (file_name (Date_now clk)) = None"
  shows "files (snd (post_reservations e st clk b w)) =
           writeFile (file_name (Date_now clk)) (JSON_stringify (make_reservationData clk b)) (files w)"
proof -
  have id: "rd_id (make_reservationData clk b) = Date_now clk"
    by (simp add: make_reservationData_def)
  show ?thesis
    using assms
    by (simp add: post_reservations_def valid_def Let_def id respond_500_def files_emit
        files_send_emails case_prod_beta split: option.splits)
qed


lemma valid_body_ok: "valid body_ok"
  by (simp add: valid_def body_ok_def)

lemma disk_ok: "writeFileSync_error env_ok p = None"
  by (simp add: env_ok_def)

lemma disk_full: "writeFileSync_error env_disk_full p = Some (SystemError ''ENOSPC'')"
  by (simp add: env_disk_full_def)

text \<open>
  The channel is ready exactly when both credentials are set and the verification went
  through: without credentials (disabled) and after a failed verification (unavailable)
  it is not.
\<close>

lemma ready_initializeEmail:
  "ready (initializeEmail e t verify) \<longleftrightarrow>
     env_set (GMAIL_USER e) \<and> env_set (GMAIL_PASSWORD e) \<and> verify = None"
  by (auto simp: ready_def initializeEmail_def split: option.splits)

lemma st_disabled_initial:
  "initializeEmail (env_ok\<lparr>GMAIL_USER := None\<rparr>) t verify = st_disabled"
  by (simp add: initializeEmail_def env_set_def st_disabled_def)

lemma not_ready_disabled: "\<not> ready st_disabled"
  by (simp add: ready_def st_disabled_def)

text \<open>
  Claim C7, as the code has it. A valid submission whose record is written and whose
  name converts to a string (so that the log line after the write is produced), made
  while the channel is not ready, is answered with status 200 and \<open>success = true\<close>;
  no mail is handed to the transport, and the message is the "we will contact you"
  variant.
\<close>

theorem not_ready_still_succeeds:
  assumes "valid b"
    and "writeFileSync_error e (file_name (Date_now clk)) = None"
    and "ToString (name b) = Inr s"
    and "\<not> ready st"
  shows "fst (post_reservations e st clk b w) =
           \<lparr>status = 200, success = True,
            message = Some (check_mark @ '' Reservation received! We will contact you shortly to confirm.''),
            error_detail = None, reservations = None\<rparr>
         \<and> outbox (snd (post_reservations e st clk b w)) = outbox w"
proof -
  have i: "interpolate [name b, Some (JStr (file_name (Date_now clk)))] = None"
    using assms(3) by (simp add: ToString_JStr)
  have id: "rd_id (make_reservationData clk b) = Date_now clk"
    by (simp add: make_reservationData_def)
  show ?thesis
  proof (cases "transporter st")
    case None
    with assms(1,2) i id show ?thesis
      by (simp add: post_reservations_def valid_def Let_def msg_will_contact_def outbox_emit)
  next
    case (Some t)
    with assms(4) have "\<not> emailConfigured st" by (simp add: ready_def)
    with Some assms(1,2) i id show ?thesis
      by (simp add: post_reservations_def valid_def Let_def msg_will_contact_def outbox_emit)
  qed
qed

theorem not_ready_still_succeeds_witness:
  "valid body_ok \<and> writeFileSync_error env_ok (file_name (Date_now clock0)) = None
   \<and> ToString (name body_ok) = Inr ''Asha'' \<and> \<not> ready st_disabled
   \<and> fst (post_reservations env_ok st_disabled clock0 body_ok world0) =
           \<lparr>status = 200, success = True,
            message = Some (check_mark @ '' Reservation received! We will contact you shortly to confirm.''),
            error_detail = None, reservations = None\<rparr>
   \<and> outbox (snd (post_reservations env_ok st_disabled clock0 body_ok world0)) = []"
proof -
  have n: "ToString (name body_ok) = Inr ''Asha''"
    by (simp add: body_ok_def ToString_def)
  show ?thesis
    using not_ready_still_succeeds [OF valid_body_ok disk_ok n not_ready_disabled, of clock0 world0]
      valid_body_ok disk_ok n not_ready_disabled
    by (simp add: world0_def)
qed

text \<open>
  Claim C7 as stated speaks of every valid submission made while the channel is not
  ready. Two valid submissions with the channel disabled that are answered with status
  500: one whose write throws, and one whose name is an object with an own
  \<^verbatim>\<open>toString\<close> property, which makes the log line after the write throw.
\<close>

theorem not_ready_can_fail_counterexample:
  "valid body_ok \<and> \<not> ready st_disabled
   \<and> status (fst (post_reservations env_disk_full st_disabled clock0 body_ok world0)) = 500
   \<and> valid body_odd_name
   \<and> status (fst (post_reservations env_ok st_disabled clock0 body_odd_name world0)) = 500"
proof -
  have a: "status (fst (post_reservations env_disk_full st_disabled clock0 body_ok world0)) = 500"
    using valid_body_ok
    by (simp add: post_reservations_def valid_def Let_def disk_full respond_500_def)
  have v: "valid body_odd_name"
    by (simp add: valid_def body_odd_name_def body_ok_def)
  have t: "ToString (name body_odd_name) = Inl TypeError"
    by (simp add: body_odd_name_def ToString_def)
  have b: "status (fst (post_reservations env_ok st_disabled clock0 body_odd_name world0)) = 500"
    using v t
    by (simp add: post_reservations_def valid_def Let_def disk_ok respond_500_def)
  from a b v valid_body_ok not_ready_disabled show ?thesis by simp
qed


lemma stored_file:
  "JSON_stringify (make_reservationData clk b) =
     Json (JObj (own_props
       [(''id'', Some (JNum (Finite (of_int (Date_now clk))))),
        (''name'', map_option stored (name b)),
        (''phone'', map_option stored (phone b)),
        (''email'', map_option stored (email b)),
        (''date'', map_option stored (date b)),
        (''time'', map_option stored (time b)),
        (''guests'', map_option stored (guests b)),
        (''notes'', map_option stored (notes' b)),
        (''submittedAt'', Some (JStr (toISOString (new_Date clk))))]))"
  by (simp add: JSON_stringify_def make_reservationData_def)

text \<open>
  Claim C8, as the code has it. A valid submission whose write succeeds writes exactly
  one file: it is named \<^verbatim>\<open>reservation-\<close> followed by the identifier and
  \<^verbatim>\<open>.json\<close>; the identifier is the reading of \<^verbatim>\<open>Date.now()\<close>, the submission
  timestamp the ISO-8601 rendering of the reading of \<^verbatim>\<open>new Date()\<close>, and every other
  stored field is the caller's input as \<^verbatim>\<open>JSON.stringify\<close> writes it: unchanged when
  it holds no number that is not finite and no negative zero, left out when it is
  absent. The file is a new entry of the directory when no file of that name exists,
  and replaces the file of that name otherwise; every other file is left as it was.
\<close>

theorem one_file_written:
  assumes "valid b" and "writeFileSync_error e (file_name (Date_now clk)) = None"
  shows "files (snd (post_reservations e st clk b w)) =
           (let path = ''reservation-'' @ Number_toString (Date_now clk) @ ''.json'';
                content = Json (JObj (own_props
                  [(''id'', Some (JNum (Finite (of_int (Date_now clk))))),
                   (''name'', map_option stored (name b)),
                   (''phone'', map_option stored (phone b)),
                   (''email'', map_option stored (email b)),
                   (''date'', map_option stored (date b)),
                   (''time'', map_option stored (time b)),
                   (''guests'', map_option stored (guests b)),
                   (''notes'', map_option stored (notes' b)),
                   (''submittedAt'', Some (JStr (toISOString (new_Date clk))))]))
            in if path \<in> set (map fst (files w))
               then map (\<lambda>(m, d). if m = path then (m, content) else (m, d)) (files w)
               else files w @ [(path, content)])
         \<and> (\<forall>v. writable v \<longrightarrow> stored v = v)"
  using files_after_post [OF assms, of st w]
  by (simp add: writeFile_def file_name_def stored_file Let_def stored_writable)

theorem one_file_written_witness:
  "valid body_ok \<and> writeFileSync_error env_ok (file_name (Date_now clock0)) = None
   \<and> files (snd (post_reservations env_ok st_disabled clock0 body_ok world0)) =
       [(''reservation-1740852000000.json'',
         Json (JObj
           [(''id'', JNum (Finite 1740852000000)), (''name'', JStr ''Asha''),
            (''phone'', JStr ''555-0100''), (''email'', JStr ''asha@example.com''),
            (''date'', JStr ''2025-03-08''), (''time'', JStr ''19:00''),
            (''guests'', JNum (Finite 4)),
            (''submittedAt'', JStr (toISOString 1740852000000))]))]"
proof -
  have n: "''reservation-'' @ Number_toString (Date_now clock0) @ ''.json'' = ''reservation-1740852000000.json''"
    using file_name_clock0 by (simp add: file_name_def)
  show ?thesis
    using one_file_written [where b = body_ok and e = env_ok and clk = clock0
          and st = st_disabled and w = world0]
      valid_body_ok disk_ok
    by (simp only: n Let_def) (simp add: world0_def body_ok_def clock0_def)
qed

lemma valid_body_other: "valid body_other"
  by (simp add: valid_def body_other_def)

lemma valid_body_huge_guests: "valid body_huge_guests"
  by (simp add: valid_def body_huge_guests_def body_ok_def)

lemma files_huge_guests:
  "files (snd (post_reservations env_ok st_disabled clock0 body_huge_guests world0)) =
     [(''reservation-1740852000000.json'',
       Json (JObj
         [(''id'', JNum (Finite 1740852000000)), (''name'', JStr ''Asha''),
          (''phone'', JStr ''555-0100''), (''email'', JStr ''asha@example.com''),
          (''date'', JStr ''2025-03-08''), (''time'', JStr ''19:00''),
          (''guests'', JNull),
          (''submittedAt'', JStr (toISOString 1740852000000))]))]"
  by (simp add: files_after_post [OF valid_body_huge_guests disk_ok] file_name_clock0
      writeFile_def world0_def stored_file)
    (simp add: body_huge_guests_def body_ok_def clock0_def)

text \<open>
  Claim C8 as stated says that every valid submission creates exactly one file and that
  the stored fields equal the caller's input. A valid submission whose write throws
  leaves the directory empty; a valid submission in the same millisecond as an earlier
  one replaces that one's file: the directory holds one file before and one after; and
  a guest count beyond the range of the doubles, which is read from the request as
  infinity, is stored as \<^verbatim>\<open>null\<close>.
\<close>

theorem not_always_a_new_file_counterexample:
  "valid body_ok
   \<and> files (snd (post_reservations env_disk_full st_disabled clock0 body_ok world0)) = []
   \<and> valid body_other
   \<and> length (files world_taken) = 1
   \<and> length (files (snd (post_reservations env_ok st_disabled clock0 body_other world_taken))) = 1
   \<and> valid body_huge_guests
   \<and> guests body_huge_guests = Some (JNum Infinity)
   \<and> files (snd (post_reservations env_ok st_disabled clock0 body_huge_guests world0)) =
       [(''reservation-1740852000000.json'',
         Json (JObj
           [(''id'', JNum (Finite 1740852000000)), (''name'', JStr ''Asha''),
            (''phone'', JStr ''555-0100''), (''email'', JStr ''asha@example.com''),
            (''date'', JStr ''2025-03-08''), (''time'', JStr ''19:00''),
            (''guests'', JNull),
            (''submittedAt'', JStr (toISOString 1740852000000))]))]"
proof -
  have a: "files (snd (post_reservations env_disk_full st_disabled clock0 body_ok world0)) = []"
    using valid_body_ok
    by (simp add: post_reservations_def valid_def Let_def disk_full respond_500_def files_emit
        world0_def)
  have b: "length (files (snd (post_reservations env_ok st_disabled clock0 body_other world_taken))) = 1"
    by (simp add: files_after_post [OF valid_body_other disk_ok] file_name_clock0 writeFile_def
        world_taken_def)
  have g: "guests body_huge_guests = Some (JNum Infinity)"
    by (simp add: body_huge_guests_def)
  from a b g valid_body_ok valid_body_other valid_body_huge_guests files_huge_guests
  show ?thesis by (simp add: world_taken_def)
qed

lemma listing_of_one_file:
  "files w = [(f, Json j)] \<Longrightarrow> startsWith f ''reservation-''
   \<Longrightarrow> reservations (get_reservations w) = Some [j]"
  by (simp add: get_reservations_def reservation_files_def JSON_parse_def)

text \<open>
  Claim C4 as stated speaks of every record. A submission with a guest count beyond the
  range of the doubles is read from the request as infinity, passes the validation and
  is saved; the listing reads it back with the guest count \<^verbatim>\<open>null\<close>. Notes that are
  the negative zero are read back as the positive zero.
\<close>

theorem number_not_read_back_counterexample:
  "valid body_huge_guests
   \<and> rd_guests (make_reservationData clock0 body_huge_guests) = Some (JNum Infinity)
   \<and> reservations (get_reservations
        (snd (post_reservations env_ok st_disabled clock0 body_huge_guests world0))) =
       Some [JObj
           [(''id'', JNum (Finite 1740852000000)), (''name'', JStr ''Asha''),
            (''phone'', JStr ''555-0100''), (''email'', JStr ''asha@example.com''),
            (''date'', JStr ''2025-03-08''), (''time'', JStr ''19:00''),
            (''guests'', JNull),
            (''submittedAt'', JStr (toISOString 1740852000000))]]
   \<and> valid body_minus_zero_notes
   \<and> rd_notes (make_reservationData clock0 body_minus_zero_notes) = Some (JNum NegZero)
   \<and> reservations (get_reservations
        (snd (post_reservations env_ok st_disabled clock0 body_minus_zero_notes world0))) =
       Some [JObj
           [(''id'', JNum (Finite 1740852000000)), (''name'', JStr ''Asha''),
            (''phone'', JStr ''555-0100''), (''email'', JStr ''asha@example.com''),
            (''date'', JStr ''2025-03-08''), (''time'', JStr ''19:00''),
            (''guests'', JNum (Finite 4)), (''notes'', JNum (Finite 0)),
            (''submittedAt'', JStr (toISOString 1740852000000))]]"
proof -
  have s: "startsWith ''reservation-1740852000000.json'' ''reservation-''"
    by (simp add: startsWith_def)
  have a: "reservations (get_reservations
        (snd (post_reservations env_ok st_disabled clock0 body_huge_guests world0))) =
       Some [JObj
           [(''id'', JNum (Finite 1740852000000)), (''name'', JStr ''Asha''),
            (''phone'', JStr ''555-0100''), (''email'', JStr ''asha@example.com''),
            (''date'', JStr ''2025-03-08''), (''time'', JStr ''19:00''),
            (''guests'', JNull),
            (''submittedAt'', JStr (toISOString 1740852000000))]]"
    using files_huge_guests s by (rule listing_of_one_file)
  have v: "valid body_minus_zero_notes"
    by (simp add: valid_def body_minus_zero_notes_def body_ok_def)
  have f: "files (snd (post_reservations env_ok st_disabled clock0 body_minus_zero_notes world0)) =
       [(''reservation-1740852000000.json'',
         Json (JObj
           [(''id'', JNum (Finite 1740852000000)), (''name'', JStr ''Asha''),
            (''phone'', JStr ''555-0100''), (''email'', JStr ''asha@example.com''),
            (''date'', JStr ''2025-03-08''), (''time'', JStr ''19:00''),
            (''guests'', JNum (Finite 4)), (''notes'', JNum (Finite 0)),
            (''submittedAt'', JStr (toISOString 1740852000000))]))]"
    by (simp add: files_after_post [OF v disk_ok] file_name_clock0 writeFile_def world0_def
        stored_file)
      (simp add: body_minus_zero_notes_def body_ok_def clock0_def)
  have b: "reservations (get_reservations
        (snd (post_reservations env_ok st_disabled clock0 body_minus_zero_notes world0))) =
       Some [JObj
           [(''id'', JNum (Finite 1740852000000)), (''name'', JStr ''Asha''),
            (''phone'', JStr ''555-0100''), (''email'', JStr ''asha@example.com''),
            (''date'', JStr ''2025-03-08''), (''time'', JStr ''19:00''),
            (''guests'', JNum (Finite 4)), (''notes'', JNum (Finite 0)),
            (''submittedAt'', JStr (toISOString 1740852000000))]]"
    using f s by (rule listing_of_one_file)
  have g: "rd_guests (make_reservationData clock0 body_huge_guests) = Some (JNum Infinity)"
    "rd_notes (make_reservationData clock0 body_minus_zero_notes) = Some (JNum NegZero)"
    by (simp_all add: make_reservationData_def body_huge_guests_def body_minus_zero_notes_def)
  from a b v g valid_body_huge_guests show ?thesis by simp
qed




lemma ToString_env: "\<exists>s. ToString (map_option JStr u) = Inr s"
  by (cases u) (simp_all add: ToString_def)

lemma parts_convert:
  assumes "interpolate (mailOptions_parts b) = None"
  shows "interpolate [name b, Some (JStr p)] = None"
    and "interpolate (confirmationEmail_parts b) = None"
    and "interpolate [map_option JStr u, email b] = None"
proof -
  from assms have a: "\<forall>v \<in> set (mailOptions_parts b). \<exists>s. ToString v = Inr s"
    by (simp only: interpolate_None_iff)
  then have n: "\<exists>s. ToString (name b) = Inr s" and m: "\<exists>s. ToString (email b) = Inr s"
    and d: "\<exists>s. ToString (date b) = Inr s" and t: "\<exists>s. ToString (time b) = Inr s"
    and g: "\<exists>s. ToString (guests b) = Inr s"
    by (simp_all add: mailOptions_parts_def)
  from n show "interpolate [name b, Some (JStr p)] = None"
    by (simp only: interpolate_None_iff) (auto simp: ToString_JStr)
  from n d t g show "interpolate (confirmationEmail_parts b) = None"
    by (simp only: interpolate_None_iff) (auto simp: confirmationEmail_parts_def)
  from m ToString_env [of u] show "interpolate [map_option JStr u, email b] = None"
    by (simp only: interpolate_None_iff) auto
qed

lemma send_emails_outbox:
  assumes "interpolate (mailOptions_parts b) = None"
  shows "outbox (snd (send_emails e t b w)) =
           outbox w @ mailOptions e b #
             (if t (outbox w) (mailOptions e b) = None then [confirmationEmail e b] else [])"
  using assms parts_convert(2,3) [OF assms]
  by (simp add: send_emails_def Let_def outbox_emit split: option.splits)

lemma send_emails_flag:
  assumes "interpolate (mailOptions_parts b) = None"
  shows "fst (send_emails e t b w) =
           (t (outbox w) (mailOptions e b) = None
            \<and> t (outbox w @ [mailOptions e b]) (confirmationEmail e b) = None)"
  using assms parts_convert(2,3) [OF assms]
  by (simp add: send_emails_def Let_def outbox_emit split: option.splits)

lemma post_when_ready:
  assumes "valid b"
    and "writeFileSync_error e (file_name (Date_now clk)) = None"
    and "interpolate (mailOptions_parts b) = None"
    and "transporter st = Some t" and "emailConfigured st"
  shows "outbox (snd (post_reservations e st clk b w)) =
           outbox w @ mailOptions e b #
             (if t (outbox w) (mailOptions e b) = None then [confirmationEmail e b] else [])"
    and "fst (post_reservations e st clk b w) =
           \<lparr>status = 200, success = True,
            message = Some
              (if t (outbox w) (mailOptions e b) = None
                  \<and> t (outbox w @ [mailOptions e b]) (confirmationEmail e b) = None
               then msg_email_shortly else msg_will_contact),
            error_detail = None, reservations = None\<rparr>"
proof -
  have id: "rd_id (make_reservationData clk b) = Date_now clk"
    by (simp add: make_reservationData_def)
  define w2 where "w2 = emit (Log_Reservation_saved (name b) (file_name (Date_now clk)))
      (w\<lparr>files := writeFile (file_name (Date_now clk))
            (JSON_stringify (make_reservationData clk b)) (files w)\<rparr>)"
  have o: "outbox w2 = outbox w" by (simp add: w2_def outbox_emit)
  have p: "post_reservations e st clk b w =
      (\<lparr>status = 200, success = True,
        message = Some (if fst (send_emails e t b w2) then msg_email_shortly else msg_will_contact),
        error_detail = None, reservations = None\<rparr>, snd (send_emails e t b w2))"
    using assms(1,2,4,5) parts_convert(1) [OF assms(3)]
    by (simp add: post_reservations_def valid_def Let_def id w2_def case_prod_beta)
  show "outbox (snd (post_reservations e st clk b w)) =
           outbox w @ mailOptions e b #
             (if t (outbox w) (mailOptions e b) = None then [confirmationEmail e b] else [])"
    by (simp add: p send_emails_outbox [OF assms(3)] o)
  show "fst (post_reservations e st clk b w) =
           \<lparr>status = 200, success = True,
            message = Some
              (if t (outbox w) (mailOptions e b) = None
                  \<and> t (outbox w @ [mailOptions e b]) (confirmationEmail e b) = None
               then msg_email_shortly else msg_will_contact),
            error_detail = None, reservations = None\<rparr>"
    by (simp add: p send_emails_flag [OF assms(3)] o)
qed

text \<open>
  Claim C2, as the code has it. For a valid submission whose record is written and whose
  fields convert to strings, handled while the channel is ready, the restaurant mail is
  sent first and the guest mail is attempted only when the restaurant mail went through:
  both sends share one \<^verbatim>\<open>try\<close> block. A failed send is absorbed (status 200,
  \<open>success = true\<close>), and the answer records only whether both sends succeeded, by the
  variant of its message.
\<close>

theorem sends_share_one_try_block:
  assumes "valid b"
    and "writeFileSync_error e (file_name (Date_now clk)) = None"
    and "interpolate (mailOptions_parts b) = None"
    and "transporter st = Some t" and "emailConfigured st"
  shows "outbox (snd (post_reservations e st clk b w)) =
           outbox w @ mailOptions e b #
             (if t (outbox w) (mailOptions e b) = None then [confirmationEmail e b] else [])
         \<and> fst (post_reservations e st clk b w) =
           \<lparr>status = 200, success = True,
            message = Some
              (if t (outbox w) (mailOptions e b) = None
                  \<and> t (outbox w @ [mailOptions e b]) (confirmationEmail e b) = None
               then check_mark @ '' Reservation submitted! You will receive a confirmation email shortly.''
               else check_mark @ '' Reservation received! We will contact you shortly to confirm.''),
            error_detail = None, reservations = None\<rparr>"
  using post_when_ready [OF assms, of w]
  by (simp add: msg_email_shortly_def msg_will_contact_def)

lemma parts_body_ok: "interpolate (mailOptions_parts body_ok) = None"
  by (simp add: mailOptions_parts_def body_ok_def ToString_def)

theorem sends_share_one_try_block_witness:
  "valid body_ok \<and> writeFileSync_error env_ok (file_name (Date_now clock0)) = None
   \<and> interpolate (mailOptions_parts body_ok) = None
   \<and> transporter (st_ready accept_all) = Some accept_all \<and> emailConfigured (st_ready accept_all)
   \<and> outbox (snd (post_reservations env_ok (st_ready accept_all) clock0 body_ok world0)) =
        [mailOptions env_ok body_ok, confirmationEmail env_ok body_ok]
   \<and> message (fst (post_reservations env_ok (st_ready accept_all) clock0 body_ok world0)) =
        Some (check_mark @ '' Reservation submitted! You will receive a confirmation email shortly.'')"
proof -
  have t: "transporter (st_ready accept_all) = Some accept_all"
    and c: "emailConfigured (st_ready accept_all)"
    by (simp_all add: st_ready_def)
  show ?thesis
    using sends_share_one_try_block [OF valid_body_ok disk_ok parts_body_ok t c, of clock0 world0]
      valid_body_ok disk_ok parts_body_ok t c
    by (simp add: world0_def accept_all_def)
qed

text \<open>
  Claim C2 as stated says that the second send is attempted even when the first fails.
  With a transport that rejects the restaurant mail, the guest mail is never handed to
  the transport.
\<close>

theorem second_send_skipped_counterexample:
  "valid body_ok \<and> ready (st_ready reject_restaurant)
   \<and> reject_restaurant [] (mailOptions env_ok body_ok) = Some (MailError ''rejected'')
   \<and> outbox (snd (post_reservations env_ok (st_ready reject_restaurant) clock0 body_ok world0)) =
        [mailOptions env_ok body_ok]
   \<and> confirmationEmail env_ok body_ok
        \<notin> set (outbox (snd (post_reservations env_ok (st_ready reject_restaurant) clock0 body_ok world0)))"
proof -
  have r: "reject_restaurant h (mailOptions env_ok body_ok) = Some (MailError ''rejected'')" for h
    by (simp add: reject_restaurant_def mailOptions_def)
  have t: "transporter (st_ready reject_restaurant) = Some reject_restaurant"
    and c: "emailConfigured (st_ready reject_restaurant)"
    by (simp_all add: st_ready_def)
  have o: "outbox (snd (post_reservations env_ok (st_ready reject_restaurant) clock0 body_ok world0)) =
        [mailOptions env_ok body_ok]"
    using post_when_ready(1) [OF valid_body_ok disk_ok parts_body_ok t c, of clock0 world0]
    by (simp add: r world0_def)
  have d: "confirmationEmail env_ok body_ok \<noteq> mailOptions env_ok body_ok"
    by (simp add: confirmationEmail_def mailOptions_def)
  show ?thesis
    using o d r valid_body_ok by (simp add: ready_def st_ready_def)
qed

section \<open>The batch sender\<close>




















end
